theory Spec2Isabelle
  imports Complex_Main "HOL-Library.Multiset" "HOL-Library.AList"
begin

section \<open>Shared JavaScript notions\<close>

text \<open>
  The components are TypeScript run as JavaScript. A thrown exception is a value of
  \<open>js_error\<close> on the left of a sum. Indices and lengths of the lists at hand are natural
  numbers or integers. Where the code computes with numbers it is given, the model says
  for which of them its integer arithmetic is the arithmetic of the code.
\<close>

datatype js_error = RangeError | TypeError

text \<open>
  Template literals print an integer below \<open>10^21\<close> in magnitude with all its decimal
  digits.
\<close>

definition digit_char :: "nat \<Rightarrow> char" where
  "digit_char d = ''0123456789'' ! d"

fun show_nat :: "nat \<Rightarrow> string" where
  "show_nat n = (if n < 10 then [digit_char n] else show_nat (n div 10) @ [digit_char (n mod 10)])"

declare show_nat.simps [simp del]

definition show_int :: "int \<Rightarrow> string" where
  "show_int i = (if i < 0 then CHR ''-'' # show_nat (nat (- i)) else show_nat (nat i))"


text \<open>
  \<open>Array.prototype.findIndex\<close>: the index of the first element satisfying the
  predicate, \<open>-1\<close> when there is none.
\<close>

fun findIndex :: "('a \<Rightarrow> bool) \<Rightarrow> 'a list \<Rightarrow> int" where
  "findIndex P [] = -1"
| "findIndex P (x # xs) = (if P x then 0 else (let i = findIndex P xs in if i < 0 then -1 else i + 1))"

text \<open>
  \<open>xs.splice(start, 1)\<close>: a negative start counts from the end (clamped at 0), a start
  beyond the end is clamped to the length; one element is deleted there when there is one.
\<close>

definition splice1 :: "int \<Rightarrow> 'a list \<Rightarrow> 'a list" where
  "splice1 start xs =
     (let n = int (length xs);
          s = (if start < 0 then max (n + start) 0 else min start n)
      in take (nat s) xs @ drop (nat s + 1) xs)"

text \<open>\<open>s.lastIndexOf(c)\<close> for a single character \<open>c\<close>.\<close>

fun lastIndexOf :: "string \<Rightarrow> char \<Rightarrow> int" where
  "lastIndexOf [] c = -1"
| "lastIndexOf (x # xs) c =
     (let i = lastIndexOf xs c in if 0 \<le> i then i + 1 else if x = c then 0 else -1)"

text \<open>
  The translation function \<open>t\<close> of the i18n library is a parameter of every operation
  that uses it: it maps a message key and named parameters to the displayed text.
\<close>

type_synonym i18n = "string \<Rightarrow> (string \<times> string) list \<Rightarrow> string"


section \<open>Data table: the page selector (DataTable.vue)\<close>

record page_entry =
  pvalue :: nat
  ptext :: string

text \<open>
  The numbers of JavaScript are doubles. On the safe integers, those below \<open>2^53\<close> in
  magnitude, they are the integers themselves.
\<close>

definition safe_integer :: "int \<Rightarrow> bool" where
  "safe_integer n \<longleftrightarrow> - (2 ^ 53) < n \<and> n < 2 ^ 53"

text \<open>
  \<open>pageSelectorData\<close> reads \<open>itemsLength\<close> from its argument and \<open>perPage\<close> from the
  computed \<open>itemsPerPageUsed\<close>. A zero \<open>perPage\<close> makes the quotient \<open>Infinity\<close> or
  \<open>NaN\<close>; \<open>new Array\<close> of either, of a negative number or of a number from \<open>2^32\<close> on
  throws a RangeError.

  The model covers a length that is not negative and arguments that are safe integers,
  and answers \<open>None\<close> elsewhere. There the rounded quotient of the doubles has the
  ceiling of the exact quotient, every number printed lies between 1 and \<open>itemsLength\<close>,
  and a product \<open>(index + 1) * perPage\<close> that is not exact exceeds \<open>itemsLength\<close>, so that
  the minimum is \<open>itemsLength\<close> all the same.
\<close>

definition pageSelectorData :: "int \<Rightarrow> int \<Rightarrow> (js_error + page_entry list) option" where
  "pageSelectorData perPage itemsLength =
     (if itemsLength < 0 \<or> \<not> safe_integer itemsLength \<or> \<not> safe_integer perPage then None
      else if perPage = 0 then Some (Inl RangeError)
      else
        let totalPage = \<lceil>real_of_int itemsLength / real_of_int perPage\<rceil>
        in if totalPage < 0 \<or> 2 ^ 32 \<le> totalPage then Some (Inl RangeError)
           else Some (Inr (map (\<lambda>index.
                  \<lparr>pvalue = index + 1,
                   ptext = show_int (int index * perPage + 1) @ '' - '' @
                           show_int (min ((int index + 1) * perPage) itemsLength)\<rparr>)
                [0..<nat totalPage])))"


section \<open>Backup manager (database backups page)\<close>

record UserDbBackup =
  version :: int
  time :: int
  size' :: int

record userdb_info =
  filepath :: string
  info_size :: int
  info_version :: int

record userdb =
  info :: userdb_info
  backups :: "UserDbBackup list"

record globaldb =
  globaldbAssetsVersion :: int
  globaldbSchemaVersion :: int

record DatabaseInfo =
  globaldb :: globaldb
  userdb :: userdb

text \<open>
  What the page hands to \<open>notify\<close> of the notification store: \<open>display\<close>, \<open>title\<close> and
  \<open>message\<close>, and for the notice of a finished backup the severity \<open>Severity.INFO\<close>. The
  enumeration \<open>Severity\<close> belongs to the common library; its other members are warning
  and error.
\<close>

datatype Severity = INFO | WARNING | ERROR

record notification =
  display :: bool
  severity :: "Severity option"
  title :: string
  message :: string

definition isSameEntry :: "UserDbBackup \<Rightarrow> UserDbBackup \<Rightarrow> bool" where
  "isSameEntry firstDb secondDb \<longleftrightarrow>
     version firstDb = version secondDb \<and>
     time firstDb = time secondDb \<and>
     size' firstDb = size' secondDb"

text \<open>
  The state of the page: the \<open>backupInfo\<close> ref (null until loaded), the \<open>loading\<close>,
  \<open>saving\<close> and \<open>selected\<close> refs and the notifications raised through the notification
  store, oldest first. What is written to the logger is not part of the state.
\<close>

record backup_state =
  backupInfo :: "DatabaseInfo option"
  loading :: bool
  saving :: bool
  selected :: "UserDbBackup list"
  notifications :: "notification list"

definition backups_of :: "backup_state \<Rightarrow> UserDbBackup list" where
  "backups_of st = (case backupInfo st of None \<Rightarrow> [] | Some i \<Rightarrow> backups (userdb i))"

definition directory :: "backup_state \<Rightarrow> string" where
  "directory st =
     (case backupInfo st of
        None \<Rightarrow> []
      | Some i \<Rightarrow>
          let fp = filepath (info (userdb i));
              index = lastIndexOf fp CHR ''/'';
              index = (if index = -1 then lastIndexOf fp (CHR 0x5C) else index)
          in take (nat (index + 1)) fp)"

definition notify :: "notification \<Rightarrow> backup_state \<Rightarrow> backup_state" where
  "notify n st = st\<lparr>notifications := notifications st @ [n]\<rparr>"

text \<open>
  \<open>loadInfo\<close> awaits the backend's \<open>info\<close>, a parameter: \<open>Inr\<close> the answer, \<open>Inl\<close> the
  message of the error thrown. The \<open>finally\<close> block clears \<open>loading\<close> on both paths.
\<close>

definition loadInfo :: "(string + DatabaseInfo) \<Rightarrow> i18n \<Rightarrow> backup_state \<Rightarrow> backup_state" where
  "loadInfo info_result t st =
     (let st1 = st\<lparr>loading := True\<rparr>;
          st2 = (case info_result of
                   Inr i \<Rightarrow> st1\<lparr>backupInfo := Some i\<rparr>
                 | Inl msg \<Rightarrow>
                     notify \<lparr>display = True, severity = None,
                             title = t ''database_backups.load_error.title'' [],
                             message = t ''database_backups.load_error.message''
                                         [(''message'', msg)]\<rparr> st1)
      in st2\<lparr>loading := False\<rparr>)"

text \<open>
  \<open>remove\<close> (here \<open>remove'\<close>) awaits the backend's \<open>deleteBackup\<close>, a parameter here: it answers \<open>Inr\<close>
  when the call resolves and \<open>Inl\<close> with the error's message when it throws.
  \<open>getFilepath\<close> is a helper outside the component and a parameter as well. The copy
  \<open>{ ...backupInfo }\<close> is shallow, so the splice acts on the list the state holds.
\<close>

definition remove' ::
  "(string list \<Rightarrow> string + bool) \<Rightarrow> (UserDbBackup \<Rightarrow> string \<Rightarrow> string) \<Rightarrow> i18n \<Rightarrow>
   UserDbBackup \<Rightarrow> backup_state \<Rightarrow> backup_state" where
  "remove' deleteBackup getFilepath t db st =
     (let fp = getFilepath db (directory st)
      in case deleteBackup [fp] of
           Inr _ \<Rightarrow>
             (case backupInfo st of
                None \<Rightarrow> st
              | Some i \<Rightarrow>
                  let index = findIndex (\<lambda>backup. isSameEntry backup db) (backups (userdb i));
                      i' = i\<lparr>userdb := (userdb i)\<lparr>backups := splice1 index (backups (userdb i))\<rparr>\<rparr>;
                      st' = st\<lparr>backupInfo := Some i'\<rparr>
                  in if length (selected st') > 0
                     then st'\<lparr>selected := filter (\<lambda>item. \<not> isSameEntry item db) (selected st')\<rparr>
                     else st')
         | Inl msg \<Rightarrow>
             notify \<lparr>display = True, severity = None,
                     title = t ''database_backups.delete_error.title'' [],
                     message = t ''database_backups.delete_error.message''
                                 [(''file'', fp), (''message'', msg)]\<rparr> st)"

text \<open>
  \<open>massRemove\<close> deletes the selected backups with one call of \<open>deleteBackup\<close>; when it
  resolves, each selected backup is spliced out of the list in turn, as in \<open>remove\<close>, and
  the selection is emptied.
\<close>

definition massRemove ::
  "(string list \<Rightarrow> string + bool) \<Rightarrow> (UserDbBackup \<Rightarrow> string \<Rightarrow> string) \<Rightarrow> i18n \<Rightarrow>
   backup_state \<Rightarrow> backup_state" where
  "massRemove deleteBackup getFilepath t st =
     (let filepaths = map (\<lambda>db. getFilepath db (directory st)) (selected st)
      in case deleteBackup filepaths of
           Inr _ \<Rightarrow>
             (let st' =
                    (case backupInfo st of
                       None \<Rightarrow> st
                     | Some i \<Rightarrow>
                         st\<lparr>backupInfo := Some
                            (i\<lparr>userdb := (userdb i)\<lparr>backups :=
                                 fold (\<lambda>db bs. splice1 (findIndex (\<lambda>backup. isSameEntry backup db) bs) bs)
                                   (selected st) (backups (userdb i))\<rparr>\<rparr>)\<rparr>)
              in st'\<lparr>selected := []\<rparr>)
         | Inl msg \<Rightarrow>
             notify \<lparr>display = True, severity = None,
                     title = t ''database_backups.delete_error.title'' [],
                     message = t ''database_backups.delete_error.mass_message''
                                 [(''message'', msg)]\<rparr> st)"

text \<open>
  \<open>backup\<close> awaits the backend's \<open>createBackup\<close>, which answers the path of the new file,
  gives notice of it and reloads the page with \<open>refresh\<close>, which is \<open>loadInfo\<close>; the outcome
  of the backend's \<open>info\<close> for that reload is the second parameter. The \<open>finally\<close> block
  clears \<open>saving\<close> on both paths.
\<close>

definition backup ::
  "(string + string) \<Rightarrow> (string + DatabaseInfo) \<Rightarrow> i18n \<Rightarrow> backup_state \<Rightarrow> backup_state" where
  "backup createBackup info_result t st =
     (let st1 = st\<lparr>saving := True\<rparr>;
          st2 = (case createBackup of
                   Inr fp \<Rightarrow>
                     loadInfo info_result t
                       (notify \<lparr>display = True, severity = Some INFO,
                                title = t ''database_backups.backup.title'' [],
                                message = t ''database_backups.backup.message''
                                            [(''filepath'', fp)]\<rparr> st1)
                 | Inl msg \<Rightarrow>
                     notify \<lparr>display = True, severity = None,
                             title = t ''database_backups.backup_error.title'' [],
                             message = t ''database_backups.backup_error.message''
                                         [(''message'', msg)]\<rparr> st1)
      in st2\<lparr>saving := False\<rparr>)"

text \<open>A loaded page with three backups, two of them equal, for the examples.\<close>

definition backup_a :: UserDbBackup where
  "backup_a = \<lparr>version = 36, time = 1000, size' = 500\<rparr>"

definition backup_b :: UserDbBackup where
  "backup_b = \<lparr>version = 37, time = 2000, size' = 700\<rparr>"

definition demo_backups :: backup_state where
  "demo_backups =
     \<lparr>backupInfo = Some
        \<lparr>globaldb = \<lparr>globaldbAssetsVersion = 1, globaldbSchemaVersion = 4\<rparr>,
         userdb = \<lparr>info = \<lparr>filepath = ''/data/user/rotkehlchen.db'', info_size = 900,
                           info_version = 37\<rparr>,
                   backups = [backup_b, backup_a, backup_a]\<rparr>\<rparr>,
      loading = False,
      saving = False,
      selected = [backup_a, backup_b],
      notifications = []\<rparr>"

definition delete_resolves :: "string list \<Rightarrow> string + bool" where
  "delete_resolves filepaths = Inr True"

definition delete_throws :: "string list \<Rightarrow> string + bool" where
  "delete_throws filepaths = Inl ''permission denied''"

definition demo_getFilepath :: "UserDbBackup \<Rightarrow> string \<Rightarrow> string" where
  "demo_getFilepath db dir = dir @ show_nat (nat (time db)) @ ''.backup''"


section \<open>Table filter (TableFilter.vue)\<close>

record AssetInfo =
  identifier' :: string
  name :: string
  symbol :: string
  isCustomAsset :: bool

text \<open>The value of a chip is a string or, for an asset matcher, an asset.\<close>

datatype svalue = StrV string | AssetV AssetInfo

text \<open>
  A chip of the selection. The optional \<open>exclude\<close> is read by the code for its
  truthiness only; an absent flag is \<open>False\<close> here.
\<close>

record Suggestion =
  index :: nat
  total' :: nat
  asset :: bool
  key :: string
  value' :: svalue
  exclude :: bool

text \<open>
  \<open>SearchMatcher\<close> is the union of the string matcher (\<open>string: true\<close>) and the asset
  matcher (\<open>asset: true\<close>). The fields that only the dropdown shows (hint, the
  asynchronous asset suggestions) are left out.
\<close>

datatype matcher_kind =
    StringMatcher (allowExclusion: bool) (suggestions: "string list")
      (validate: "string \<Rightarrow> bool")
      (serializer: "(string \<Rightarrow> string) option")
      (deserializer: "(string \<Rightarrow> string) option")
  | AssetMatcher (asset_deserializer: "(string \<Rightarrow> AssetInfo option) option")

record SearchMatcher =
  matcher_key :: string
  keyValue :: "string option"
  description :: string
  multiple :: bool
  kind :: matcher_kind

text \<open>
  The emitted \<open>matches\<close> object maps a value key to a string or to an array of strings.
  It is an association list in insertion order, which is the order \<open>Object.entries\<close>
  walks for keys that are not array indices; a key that is assigned again keeps its
  place (\<open>AList.update\<close>). The list holds the object's own properties. The object is
  created as \<open>{}\<close>, so reading a key it does not own answers what \<open>Object.prototype\<close>
  has under that name: a function or, for \<open>__proto__\<close>, the prototype itself, all of
  them truthy and none with a \<open>push\<close> method. Assigning to such a name creates an own
  property, except for \<open>__proto__\<close>, where assigning a string does nothing.
\<close>

datatype match_value = Single string | Many "string list"

type_synonym MatchedKeyword = "(string \<times> match_value) list"

definition object_prototype_names :: "string list" where
  "object_prototype_names =
     [''constructor'', ''__defineGetter__'', ''__defineSetter__'', ''hasOwnProperty'',
      ''__lookupGetter__'', ''__lookupSetter__'', ''isPrototypeOf'',
      ''propertyIsEnumerable'', ''toString'', ''valueOf'', ''__proto__'',
      ''toLocaleString'']"

definition matcherForKey :: "SearchMatcher list \<Rightarrow> string \<Rightarrow> SearchMatcher option" where
  "matcherForKey matchers searchKey = find (\<lambda>m. matcher_key m = searchKey) matchers"

definition matcherForKeyValue :: "SearchMatcher list \<Rightarrow> string \<Rightarrow> SearchMatcher option" where
  "matcherForKeyValue matchers searchKey = find (\<lambda>m. keyValue m = Some searchKey) matchers"

text \<open>\<open>matcher.keyValue || matcher.key\<close>: an absent or empty \<open>keyValue\<close> gives the key.\<close>

definition valueKey :: "SearchMatcher \<Rightarrow> string" where
  "valueKey matcher =
     (case keyValue matcher of
        None \<Rightarrow> matcher_key matcher
      | Some kv \<Rightarrow> if kv = [] then matcher_key matcher else kv)"

text \<open>
  The keyword an entry contributes, \<open>None\<close> where the loop body says \<open>continue\<close> before
  the keyword is complete. \<open>serializer?.(v) || v\<close> falls back to the value when there is
  no serializer or when it answers the empty string.
\<close>

definition transformedKeyword :: "SearchMatcher \<Rightarrow> Suggestion \<Rightarrow> string option" where
  "transformedKeyword matcher entry =
     (case kind matcher of
        StringMatcher _ _ valid ser _ \<Rightarrow>
          (case value' entry of
             AssetV _ \<Rightarrow> None
           | StrV v \<Rightarrow>
               if valid v then
                 let tk = (case ser of
                             None \<Rightarrow> v
                           | Some f \<Rightarrow> if f v = [] then v else f v)
                 in Some (if exclude entry then CHR ''!'' # tk else tk)
               else None)
      | AssetMatcher _ \<Rightarrow>
          Some (case value' entry of AssetV a \<Rightarrow> identifier' a | StrV v \<Rightarrow> v))"

text \<open>
  One iteration of the loop of \<open>updateMatches\<close> on the pair of \<open>matched\<close> and
  \<open>validPairs\<close>. Pushing onto a slot that holds a non-empty string, or onto what the
  prototype has under an inherited name, throws a TypeError.
\<close>

definition updateEntry ::
  "SearchMatcher list \<Rightarrow> Suggestion \<Rightarrow> MatchedKeyword \<times> Suggestion list \<Rightarrow>
   js_error + (MatchedKeyword \<times> Suggestion list)" where
  "updateEntry matchers entry acc =
     (case acc of (matched, validPairs) \<Rightarrow>
       (case matcherForKey matchers (key entry) of
          None \<Rightarrow> Inr acc
        | Some matcher \<Rightarrow>
            (case transformedKeyword matcher entry of
               None \<Rightarrow> Inr acc
             | Some tk \<Rightarrow>
                 if tk = [] then Inr acc
                 else if multiple matcher then
                   (case map_of matched (valueKey matcher) of
                      None \<Rightarrow>
                        if valueKey matcher \<in> set object_prototype_names then Inl TypeError
                        else
                          Inr (AList.update (valueKey matcher) (Many [tk]) matched,
                               validPairs @ [entry])
                    | Some (Many vs) \<Rightarrow>
                        Inr (AList.update (valueKey matcher) (Many (vs @ [tk])) matched,
                             validPairs @ [entry])
                    | Some (Single s) \<Rightarrow>
                        if s = [] then
                          Inr (AList.update (valueKey matcher) (Many [tk]) matched,
                               validPairs @ [entry])
                        else Inl TypeError)
                 else if valueKey matcher = ''__proto__'' then
                   Inr (matched, validPairs @ [entry])
                 else
                   Inr (AList.update (valueKey matcher) (Single tk) matched,
                        validPairs @ [entry]))))"

fun updateLoop ::
  "SearchMatcher list \<Rightarrow> Suggestion list \<Rightarrow> MatchedKeyword \<times> Suggestion list \<Rightarrow>
   js_error + (MatchedKeyword \<times> Suggestion list)" where
  "updateLoop matchers [] acc = Inr acc"
| "updateLoop matchers (entry # pairs) acc =
     (case updateEntry matchers entry acc of
        Inl e \<Rightarrow> Inl e
      | Inr acc' \<Rightarrow> updateLoop matchers pairs acc')"

text \<open>
  \<open>updateMatches\<close> answers the emitted \<open>matches\<close> object and the new \<open>selection\<close>; when
  the loop throws, nothing is emitted and the selection is not assigned.
\<close>

definition updateMatches ::
  "SearchMatcher list \<Rightarrow> Suggestion list \<Rightarrow> js_error + (MatchedKeyword \<times> Suggestion list)" where
  "updateMatches matchers pairs = updateLoop matchers pairs ([], [])"

definition startsWithBang :: "string \<Rightarrow> bool" where
  "startsWithBang s = (case s of [] \<Rightarrow> False | c # _ \<Rightarrow> c = CHR ''!'')"

text \<open>
  The body of the inner \<open>forEach\<close> of \<open>restoreSelection\<close>: the chip restored from one
  string of the \<open>matches\<close> object. A previous asset chip of the same key is reused
  when its value is truthy.
\<close>

definition restoreValue :: "SearchMatcher \<Rightarrow> Suggestion list \<Rightarrow> string \<Rightarrow> Suggestion" where
  "restoreValue foundMatchers oldSelection v =
     (let isAsset = (case kind foundMatchers of AssetMatcher _ \<Rightarrow> True | StringMatcher _ _ _ _ _ \<Rightarrow> False);
          prev = (if isAsset
                  then (case find (\<lambda>s. key s = matcher_key foundMatchers) oldSelection of
                          None \<Rightarrow> None
                        | Some p \<Rightarrow> if value' p = StrV [] then None else Some (value' p))
                  else None)
      in case prev of
           Some d \<Rightarrow>
             \<lparr>index = 0, total' = 1, asset = isAsset, key = matcher_key foundMatchers,
              value' = d, exclude = False\<rparr>
         | None \<Rightarrow>
             let excl = (\<not> isAsset \<and> startsWithBang v);
                 normalizedValue = (if excl then tl v else v);
                 deserializedValue =
                   (case kind foundMatchers of
                      StringMatcher _ _ _ _ deser \<Rightarrow>
                        (case deser of
                           None \<Rightarrow> StrV normalizedValue
                         | Some d \<Rightarrow>
                             if d normalizedValue = [] then StrV normalizedValue
                             else StrV (d normalizedValue))
                    | AssetMatcher deser \<Rightarrow>
                        (case deser of
                           None \<Rightarrow> StrV normalizedValue
                         | Some d \<Rightarrow>
                             (case d normalizedValue of
                                None \<Rightarrow> StrV normalizedValue
                              | Some a \<Rightarrow> AssetV a)))
             in \<lparr>index = 0, total' = 1, asset = isAsset, key = matcher_key foundMatchers,
                 value' = deserializedValue, exclude = excl\<rparr>)"

definition restoreEntry ::
  "SearchMatcher list \<Rightarrow> Suggestion list \<Rightarrow> string \<times> match_value \<Rightarrow> Suggestion list" where
  "restoreEntry matchers oldSelection kv =
     (case kv of (k, v) \<Rightarrow>
       (case matcherForKeyValue matchers k of
          None \<Rightarrow> []
        | Some foundMatchers \<Rightarrow>
            (case v of
               Single s \<Rightarrow> if s = [] then [] else [restoreValue foundMatchers oldSelection s]
             | Many vs \<Rightarrow> map (restoreValue foundMatchers oldSelection) vs)))"

definition restoreSelection ::
  "SearchMatcher list \<Rightarrow> Suggestion list \<Rightarrow> MatchedKeyword \<Rightarrow> Suggestion list" where
  "restoreSelection matchers oldSelection matches =
     concat (map (restoreEntry matchers oldSelection) matches)"

text \<open>
  The matchers of the deposits and withdrawals filter (asset-movement.ts). The
  category options, the locations of the history store and the date and asset helpers
  are defined outside it and are parameters.
\<close>

definition matchers ::
  "i18n \<Rightarrow> string list \<Rightarrow> string list \<Rightarrow> (string \<Rightarrow> bool) \<Rightarrow> (string \<Rightarrow> string) \<Rightarrow>
   (string \<Rightarrow> string) \<Rightarrow> (string \<Rightarrow> AssetInfo option) \<Rightarrow> SearchMatcher list" where
  "matchers t movementCategoryOptions associatedLocations dateValidator dateSerializer
     dateDeserializer assetDeserializer =
     [\<lparr>matcher_key = ''asset'', keyValue = Some ''asset'',
       description = t ''deposit_withdrawals.filter.asset'' [], multiple = False,
       kind = AssetMatcher (Some assetDeserializer)\<rparr>,
      \<lparr>matcher_key = ''action'', keyValue = Some ''action'',
       description = t ''deposit_withdrawals.filter.action'' [], multiple = False,
       kind = StringMatcher False movementCategoryOptions
                (\<lambda>type. type \<in> set movementCategoryOptions) None None\<rparr>,
      \<lparr>matcher_key = ''start'', keyValue = Some ''fromTimestamp'',
       description = t ''deposit_withdrawals.filter.start_date'' [], multiple = False,
       kind = StringMatcher False [] dateValidator (Some dateSerializer)
                (Some dateDeserializer)\<rparr>,
      \<lparr>matcher_key = ''end'', keyValue = Some ''toTimestamp'',
       description = t ''deposit_withdrawals.filter.end_date'' [], multiple = False,
       kind = StringMatcher False [] dateValidator (Some dateSerializer)
                (Some dateDeserializer)\<rparr>,
      \<lparr>matcher_key = ''location'', keyValue = Some ''location'',
       description = t ''deposit_withdrawals.filter.location'' [], multiple = False,
       kind = StringMatcher False associatedLocations
                (\<lambda>location. location \<in> set associatedLocations) None None\<rparr>]"

text \<open>
  Conditions under which a selection can be read back from the emitted object, and the
  chip \<open>restoreSelection\<close> builds for an entry: the same key, value and exclusion flag,
  with the bookkeeping fields reset.
\<close>

definition well_keyed :: "SearchMatcher list \<Rightarrow> bool" where
  "well_keyed ms \<longleftrightarrow>
     distinct (map keyValue ms) \<and>
     (\<forall>m \<in> set ms. keyValue m \<noteq> None \<and> keyValue m \<noteq> Some [] \<and>
                     valueKey m \<notin> set object_prototype_names)"

definition restorable_entry :: "SearchMatcher list \<Rightarrow> Suggestion \<Rightarrow> bool" where
  "restorable_entry ms e =
     (case matcherForKey ms (key e) of
        None \<Rightarrow> False
      | Some m \<Rightarrow>
          (case kind m of
             AssetMatcher _ \<Rightarrow> False
           | StringMatcher _ _ valid ser deser \<Rightarrow>
               (case value' e of
                  AssetV _ \<Rightarrow> False
                | StrV v \<Rightarrow>
                    valid v \<and> (v \<noteq> [] \<or> exclude e) \<and>
                    (let s = (case ser of None \<Rightarrow> v | Some f \<Rightarrow> if f v = [] then v else f v);
                         d = (case deser of None \<Rightarrow> s | Some g \<Rightarrow> if g s = [] then s else g s)
                     in d = v \<and> (exclude e \<or> \<not> startsWithBang s)))))"

definition single_keys :: "SearchMatcher list \<Rightarrow> Suggestion list \<Rightarrow> string list" where
  "single_keys ms pairs =
     map key (filter (\<lambda>e. case matcherForKey ms (key e) of
                              None \<Rightarrow> False
                            | Some m \<Rightarrow> \<not> multiple m) pairs)"

definition restored :: "Suggestion \<Rightarrow> Suggestion" where
  "restored e = e\<lparr>index := 0, total' := 1, asset := False\<rparr>"

definition entryValueKey :: "SearchMatcher list \<Rightarrow> Suggestion \<Rightarrow> string" where
  "entryValueKey ms e = (case matcherForKey ms (key e) of None \<Rightarrow> [] | Some m \<Rightarrow> valueKey m)"

definition is_many :: "match_value \<Rightarrow> bool" where
  "is_many v = (case v of Many _ \<Rightarrow> True | Single _ \<Rightarrow> False)"

text \<open>Concrete matchers and chips for the examples.\<close>

definition demo_t :: i18n where
  "demo_t k ps = k @ concat (map (\<lambda>p. '' '' @ fst p @ ''='' @ snd p) ps)"

definition demo_date_serializer :: "string \<Rightarrow> string" where
  "demo_date_serializer s = ''ts:'' @ s"

definition demo_date_deserializer :: "string \<Rightarrow> string" where
  "demo_date_deserializer s = drop 3 s"

definition demo_date_validator :: "string \<Rightarrow> bool" where
  "demo_date_validator s \<longleftrightarrow> length s = 10"

definition demo_asset_deserializer :: "string \<Rightarrow> AssetInfo option" where
  "demo_asset_deserializer s = None"

definition movement_matchers :: "SearchMatcher list" where
  "movement_matchers =
     matchers demo_t [''deposit'', ''withdrawal''] [''kraken'', ''binance'']
       demo_date_validator demo_date_serializer demo_date_deserializer
       demo_asset_deserializer"

definition accept_any :: "string \<Rightarrow> bool" where
  "accept_any s \<longleftrightarrow> True"

definition accept_nonempty :: "string \<Rightarrow> bool" where
  "accept_nonempty s \<longleftrightarrow> s \<noteq> []"

definition note_matchers :: "SearchMatcher list" where
  "note_matchers =
     [\<lparr>matcher_key = ''note'', keyValue = None, description = ''Note'', multiple = False,
       kind = StringMatcher False [] accept_any None None\<rparr>,
      \<lparr>matcher_key = ''tag'', keyValue = Some ''tags'', description = ''Tag'', multiple = True,
       kind = StringMatcher True [] accept_nonempty None None\<rparr>]"

text \<open>Matchers that emit under names every object inherits.\<close>

definition inherited_matchers :: "SearchMatcher list" where
  "inherited_matchers =
     [\<lparr>matcher_key = ''tag'', keyValue = Some ''constructor'', description = ''Tag'',
       multiple = True, kind = StringMatcher True [] accept_nonempty None None\<rparr>,
      \<lparr>matcher_key = ''note'', keyValue = Some ''__proto__'', description = ''Note'',
       multiple = False, kind = StringMatcher False [] accept_any None None\<rparr>]"

definition chip :: "string \<Rightarrow> string \<Rightarrow> bool \<Rightarrow> Suggestion" where
  "chip k v x = \<lparr>index = 0, total' = 1, asset = False, key = k, value' = StrV v, exclude = x\<rparr>"


section \<open>Failing backend calls\<close>

text \<open>The object handed to \<open>setMessage\<close> of the message store, with its optional fields.\<close>

record ui_message =
  msg_title :: "string option"
  msg_description :: "string option"
  msg_success :: "bool option"

subsection \<open>Asset form\<close>

text \<open>
  The structured validation errors of the backend, as \<open>handleError\<close> and \<open>save\<close> read
  them: the optional \<open>underlyingTokens\<close> and \<open>_schema\<close> entries and the remaining
  entries, one list of messages for each form field.
\<close>

record token_error =
  address_errors :: "string list option"
  weight_errors :: "string list option"

datatype underlying_token_errors =
    TokenMessage string
  | TokenErrors "(string \<times> token_error) list"

record validation_errors =
  underlyingTokens :: "underlying_token_errors option"
  schema :: "string list option"
  field_errors :: "(string \<times> string list) list"

datatype validation_result = ValidationMessage string | ValidationErrors validation_errors

text \<open>
  What a backend call throws: an error with its message, or an \<open>ApiValidationError\<close>.
  The class is defined outside the sources at hand; the second argument is what its
  \<open>getValidationErrors\<close> answers for the submitted asset.
\<close>

datatype api_error = PlainError string | ApiValidationError string validation_result

fun join :: "string \<Rightarrow> string list \<Rightarrow> string" where
  "join sep [] = []"
| "join sep [x] = x"
| "join sep (x # y # ys) = x @ sep @ join sep (y # ys)"

text \<open>
  The loop of \<open>getUnderlyingTokenErrors\<close>. The weight messages are pushed when the
  record itself has an entry \<open>weight\<close> (the test reads \<open>underlyingTokens.weight\<close>);
  spreading an absent \<open>ut.weight\<close> then throws a TypeError.
\<close>

fun tokenErrorsLoop :: "bool \<Rightarrow> token_error list \<Rightarrow> string list \<Rightarrow> js_error + string list" where
  "tokenErrorsLoop hasWeight [] messages = Inr messages"
| "tokenErrorsLoop hasWeight (ut # uts) messages =
     (let messages = (case address_errors ut of None \<Rightarrow> messages | Some a \<Rightarrow> messages @ a)
      in if hasWeight
         then (case weight_errors ut of
                 None \<Rightarrow> Inl TypeError
               | Some w \<Rightarrow> tokenErrorsLoop hasWeight uts (messages @ w))
         else tokenErrorsLoop hasWeight uts messages)"

definition getUnderlyingTokenErrors :: "underlying_token_errors \<Rightarrow> js_error + string list" where
  "getUnderlyingTokenErrors uts =
     (case uts of
        TokenMessage s \<Rightarrow> Inr [s]
      | TokenErrors r \<Rightarrow> tokenErrorsLoop (map_of r ''weight'' \<noteq> None) (map snd r) [])"

definition handleError :: "i18n \<Rightarrow> validation_errors \<Rightarrow> js_error + ui_message" where
  "handleError t msg =
     (case underlyingTokens msg of
        Some uts \<Rightarrow>
          (case getUnderlyingTokenErrors uts of
             Inl e \<Rightarrow> Inl e
           | Inr messages \<Rightarrow>
               Inr \<lparr>msg_title = Some (t ''asset_form.underlying_tokens'' []),
                    msg_description = Some (join '','' messages),
                    msg_success = None\<rparr>)
      | None \<Rightarrow>
          (case schema msg of
             None \<Rightarrow> Inl TypeError
           | Some msgs \<Rightarrow>
               Inr \<lparr>msg_title = Some (t ''asset_form.underlying_tokens'' []),
                    msg_description = (case msgs of [] \<Rightarrow> None | x # _ \<Rightarrow> Some x),
                    msg_success = None\<rparr>))"

text \<open>
  The part of the form's state that \<open>save\<close> and the \<open>onBeforeMount\<close> hook write: the
  \<open>identifier\<close>, \<open>types\<close> and \<open>errors\<close> refs and the message last handed to the message
  store.
\<close>

record asset_form =
  form_identifier :: string
  types :: "string list"
  errors :: "(string \<times> string list) list"
  shown :: "ui_message option"

text \<open>
  The \<open>onBeforeMount\<close> hook of the form awaits \<open>getAssetTypes\<close>, a parameter (\<open>Inl\<close> the
  message of the error thrown), as is the constant \<open>CUSTOM_ASSET\<close>.
\<close>

definition onBeforeMount :: "i18n \<Rightarrow> string \<Rightarrow> (string + string list) \<Rightarrow> asset_form \<Rightarrow> asset_form" where
  "onBeforeMount t CUSTOM_ASSET getAssetTypes st =
     (case getAssetTypes of
        Inr queriedTypes \<Rightarrow> st\<lparr>types := filter (\<lambda>item. item \<noteq> CUSTOM_ASSET) queriedTypes\<rparr>
      | Inl msg \<Rightarrow>
          st\<lparr>shown := Some
               \<lparr>msg_title = None,
                msg_description = Some (t ''asset_form.types.error'' [(''message'', msg)]),
                msg_success = None\<rparr>\<rparr>)"

text \<open>\<open>underlyingTokens\<close> is truthy unless it is absent or the empty string.\<close>

definition truthy_tokens :: "underlying_token_errors option \<Rightarrow> bool" where
  "truthy_tokens u = (case u of None \<Rightarrow> False | Some (TokenMessage s) \<Rightarrow> s \<noteq> [] | Some (TokenErrors _) \<Rightarrow> True)"

text \<open>
  \<open>saveAsset\<close>: the outcomes of the backend's \<open>editAsset\<close> and \<open>addAsset\<close> are parameters
  (\<open>Inl\<close> what the call throws); the payload they receive is not modelled.
\<close>

definition saveAsset :: "bool \<Rightarrow> (api_error + bool) \<Rightarrow> (api_error + string) \<Rightarrow> asset_form \<Rightarrow> api_error + string" where
  "saveAsset editing editAsset addAsset st =
     (if editing
      then (case editAsset of Inl e \<Rightarrow> Inl e | Inr _ \<Rightarrow> Inr (form_identifier st))
      else addAsset)"

text \<open>
  The \<open>try\<close> block of \<open>save\<close>: it answers \<open>Inr\<close> the state when both calls resolve, and
  \<open>Inl\<close> what was thrown and the state reached by then. \<open>saveIcon\<close> is the icon form's
  upload, a parameter.
\<close>

definition save_try ::
  "bool \<Rightarrow> (api_error + bool) \<Rightarrow> (api_error + string) \<Rightarrow> (string \<Rightarrow> api_error + unit) \<Rightarrow>
   asset_form \<Rightarrow> (api_error \<times> asset_form) + asset_form" where
  "save_try editing editAsset addAsset saveIcon st =
     (case saveAsset editing editAsset addAsset st of
        Inl e \<Rightarrow> Inl (e, st)
      | Inr newIdentifier \<Rightarrow>
          (let st1 = st\<lparr>form_identifier := newIdentifier\<rparr>
           in (case saveIcon newIdentifier of
                 Inl e \<Rightarrow> Inl (e, st1)
               | Inr _ \<Rightarrow> Inr st1)))"

text \<open>
  \<open>save\<close> of the asset form. The re-validation of the form after the field errors are
  set is left to the validation library. A TypeError thrown inside the \<open>catch\<close> block
  escapes \<open>save\<close>.
\<close>

definition save_asset ::
  "i18n \<Rightarrow> bool \<Rightarrow> (api_error + bool) \<Rightarrow> (api_error + string) \<Rightarrow> (string \<Rightarrow> api_error + unit) \<Rightarrow>
   asset_form \<Rightarrow> js_error + (bool \<times> asset_form)" where
  "save_asset t editing editAsset addAsset saveIcon st =
     (let attempt = save_try editing editAsset addAsset saveIcon st
      in (case attempt of
            Inr st1 \<Rightarrow> Inr (True, st1)
          | Inl (e, st1) \<Rightarrow>
              (let errorsMessage =
                     (case e of
                        PlainError m \<Rightarrow> ValidationMessage m
                      | ApiValidationError m r \<Rightarrow> r)
               in (case errorsMessage of
                     ValidationMessage s \<Rightarrow>
                       Inr (False,
                            st1\<lparr>shown := Some
                              \<lparr>msg_title = Some (if editing then t ''asset_form.edit_error'' []
                                                  else t ''asset_form.add_error'' []),
                               msg_description = Some s,
                               msg_success = None\<rparr>\<rparr>)
                   | ValidationErrors ve \<Rightarrow>
                       (if truthy_tokens (underlyingTokens ve) \<or> schema ve \<noteq> None
                        then (case handleError t ve of
                                Inl err \<Rightarrow> Inl err
                              | Inr m \<Rightarrow>
                                  Inr (False, st1\<lparr>shown := Some m, errors := field_errors ve\<rparr>))
                        else Inr (False, st1\<lparr>errors := field_errors ve\<rparr>))))))"

subsection \<open>External services\<close>

record ExternalServiceKeys =
  cryptocompare :: "string option"
  covalent :: "string option"
  etherscan :: "string option"
  beaconchain :: "string option"
  loopring :: "string option"
  opensea :: "string option"
  optimismEtherscan :: "string option"
  polygonPosEtherscan :: "string option"

text \<open>An actionable notification of the store: its id and \<open>i18nParam?.props?.key\<close>.\<close>

record actionable =
  notification_id :: nat
  props_key :: "string option"

record services_state =
  ethereumTab :: string
  optimismTab :: string
  polygonPosTab :: string
  cryptocompareKey :: string
  covalentKey :: string
  beaconchainKey :: string
  loopringKey :: string
  openseaKey :: string
  services_loading :: bool
  services_message :: "ui_message option"
  prioritized :: "actionable list"

definition apiKey_or_empty :: "string option \<Rightarrow> string" where
  "apiKey_or_empty k = (case k of None \<Rightarrow> [] | Some a \<Rightarrow> a)"

definition updateKeys :: "ExternalServiceKeys \<Rightarrow> services_state \<Rightarrow> services_state" where
  "updateKeys ks st =
     st\<lparr>ethereumTab := apiKey_or_empty (etherscan ks),
        optimismTab := apiKey_or_empty (optimismEtherscan ks),
        polygonPosTab := apiKey_or_empty (polygonPosEtherscan ks),
        cryptocompareKey := apiKey_or_empty (cryptocompare ks),
        covalentKey := apiKey_or_empty (covalent ks),
        beaconchainKey := apiKey_or_empty (beaconchain ks),
        loopringKey := apiKey_or_empty (loopring ks),
        openseaKey := apiKey_or_empty (opensea ks)\<rparr>"

text \<open>
  \<open>removeEtherscanNotification\<close>; the store's \<open>remove\<close> drops the notification with the
  given id.
\<close>

definition removeEtherscanNotification :: "string \<Rightarrow> services_state \<Rightarrow> services_state" where
  "removeEtherscanNotification location st =
     (case find (\<lambda>d. props_key d = Some location) (prioritized st) of
        None \<Rightarrow> st
      | Some n \<Rightarrow>
          st\<lparr>prioritized := filter (\<lambda>d. notification_id d \<noteq> notification_id n) (prioritized st)\<rparr>)"

text \<open>
  \<open>save\<close> of the external services page. Parameters: the outcome of the backend's
  \<open>setExternalServices\<close> on the submitted key and of \<open>fetchLoopringBalances\<close> (\<open>Inl\<close> the
  message of the error thrown), the helper \<open>toCapitalCase\<close> and the three location
  constants of \<open>data/defaults\<close>. The payload handed to the backend, the service name with
  the trimmed key, is not modelled.
\<close>

definition save_key ::
  "i18n \<Rightarrow> (string \<Rightarrow> string) \<Rightarrow> (string + ExternalServiceKeys) \<Rightarrow>
   (string + unit) \<Rightarrow> string \<Rightarrow> string \<Rightarrow> string \<Rightarrow> string \<Rightarrow>
   services_state \<Rightarrow> services_state" where
  "save_key t toCapitalCase setExternalServices fetchLoopringBalances
     TRADE_LOCATION_ETHEREUM TRADE_LOCATION_OPTIMISM TRADE_LOCATION_POLYGON_POS
     serviceName st =
     (let st1 = st\<lparr>services_loading := True\<rparr>;
          failed = (\<lambda>msg s.
                      s\<lparr>services_message := Some
                          \<lparr>msg_title = Some (t ''external_services.set.error.title'' []),
                           msg_description =
                             Some (t ''external_services.set.error.message'' [(''error'', msg)]),
                           msg_success = Some False\<rparr>\<rparr>);
          st2 =
            (case setExternalServices of
               Inl msg \<Rightarrow> failed msg st1
             | Inr ks \<Rightarrow>
                 let st3 = updateKeys ks st1;
                     st4 = st3\<lparr>services_message := Some
                             \<lparr>msg_title = Some (t ''external_services.set.success.title'' []),
                              msg_description =
                                Some (t ''external_services.set.success.message''
                                        [(''serviceName'',
                                          toCapitalCase
                                            (map (\<lambda>c. if c = CHR ''_'' then CHR '' '' else c)
                                               serviceName))]),
                              msg_success = Some True\<rparr>\<rparr>
                 in if serviceName = ''loopring'' then
                      (case fetchLoopringBalances of
                         Inl msg \<Rightarrow> failed msg st4
                       | Inr _ \<Rightarrow> st4)
                    else if serviceName = ''etherscan'' then
                      removeEtherscanNotification TRADE_LOCATION_ETHEREUM st4
                    else if serviceName = ''optimism_etherscan'' then
                      removeEtherscanNotification TRADE_LOCATION_OPTIMISM st4
                    else if serviceName = ''polygon_pos_etherscan'' then
                      removeEtherscanNotification TRADE_LOCATION_POLYGON_POS st4
                    else st4)
      in st2\<lparr>services_loading := False\<rparr>)"

text \<open>
  \<open>confirm\<close> deletes the key of a service; the outcome of the backend's
  \<open>deleteExternalServices\<close> is a parameter.
\<close>

definition confirm :: "i18n \<Rightarrow> (string + ExternalServiceKeys) \<Rightarrow> services_state \<Rightarrow> services_state" where
  "confirm t deleteExternalServices st =
     (let st1 = st\<lparr>services_loading := True\<rparr>;
          st2 = (case deleteExternalServices of
                   Inr ks \<Rightarrow> updateKeys ks st1
                 | Inl msg \<Rightarrow>
                     st1\<lparr>services_message := Some
                          \<lparr>msg_title = Some (t ''external_services.delete_error.title'' []),
                           msg_description =
                             Some (t ''external_services.delete_error.description''
                                     [(''message'', msg)]),
                           msg_success = Some False\<rparr>\<rparr>)
      in st2\<lparr>services_loading := False\<rparr>)"

text \<open>
  The \<open>onMounted\<close> hook of the page awaits the backend's \<open>queryExternalServices\<close> outside
  any \<open>try\<close> block: an error thrown escapes the hook, \<open>Inl\<close> with its message and the state
  left behind. The index of the active tab, which the hook sets first, is not part of
  the state.
\<close>

definition onMounted ::
  "(string + ExternalServiceKeys) \<Rightarrow> services_state \<Rightarrow> (string \<times> services_state) + services_state" where
  "onMounted queryExternalServices st =
     (let st1 = st\<lparr>services_loading := True\<rparr>
      in case queryExternalServices of
           Inl msg \<Rightarrow> Inl (msg, st1)
         | Inr ks \<Rightarrow> Inr ((updateKeys ks st1)\<lparr>services_loading := False\<rparr>))"

subsection \<open>EVM RPC node manager\<close>

text \<open>
  The type \<open>EvmRpcNode\<close> is declared outside the sources at hand; of a node the
  operations below read the name only, a parameter. The payload of \<open>notify\<close> has a title
  and a message here. The state is the \<open>nodes\<close> ref, the notifications raised and the
  message last handed to the message store. The outcomes of the backend's
  \<open>fetchEvmNodes\<close>, \<open>deleteEvmNode\<close> and \<open>editEvmNode\<close> are parameters, \<open>Inl\<close> the message of
  the error thrown; \<open>chain\<close> is the component's property.
\<close>

record node_notification =
  node_title :: string
  node_message :: string

record 'node nodes_state =
  nodes :: "'node list"
  node_notifications :: "node_notification list"
  node_shown :: "ui_message option"

definition loadNodes ::
  "i18n \<Rightarrow> string \<Rightarrow> (string + 'node list) \<Rightarrow> 'node nodes_state \<Rightarrow> 'node nodes_state" where
  "loadNodes t chain fetchEvmNodes st =
     (case fetchEvmNodes of
        Inr ns \<Rightarrow> st\<lparr>nodes := ns\<rparr>
      | Inl msg \<Rightarrow>
          st\<lparr>node_notifications := node_notifications st @
               [\<lparr>node_title = t ''evm_rpc_node_manager.loading_error.title'' [(''chain'', chain)],
                 node_message = msg\<rparr>]\<rparr>)"

definition deleteNode ::
  "i18n \<Rightarrow> string \<Rightarrow> (string + bool) \<Rightarrow> (string + 'node list) \<Rightarrow>
   'node nodes_state \<Rightarrow> 'node nodes_state" where
  "deleteNode t chain deleteEvmNode fetchEvmNodes st =
     (case deleteEvmNode of
        Inr _ \<Rightarrow> loadNodes t chain fetchEvmNodes st
      | Inl msg \<Rightarrow>
          st\<lparr>node_shown := Some
               \<lparr>msg_title = Some (t ''evm_rpc_node_manager.delete_error.title'' [(''chain'', chain)]),
                msg_description = Some msg,
                msg_success = Some False\<rparr>\<rparr>)"

definition onActiveChange ::
  "i18n \<Rightarrow> string \<Rightarrow> (string + bool) \<Rightarrow> (string + 'node list) \<Rightarrow> string \<Rightarrow>
   'node nodes_state \<Rightarrow> 'node nodes_state" where
  "onActiveChange t chain editEvmNode fetchEvmNodes node_name st =
     (case editEvmNode of
        Inr _ \<Rightarrow> loadNodes t chain fetchEvmNodes st
      | Inl msg \<Rightarrow>
          st\<lparr>node_shown := Some
               \<lparr>msg_title = Some (t ''evm_rpc_node_manager.activate_error.title''
                                     [(''node'', node_name)]),
                msg_description = Some msg,
                msg_success = Some False\<rparr>\<rparr>)"

subsection \<open>Importing a snapshot\<close>

text \<open>
  \<open>importSnapshot\<close> of the synchronisation indicator. The state is the two chosen files,
  the loading flag, the message last handed to the message store and whether the
  delayed logout has been scheduled. \<open>appSession\<close> tells the desktop application from
  the browser; the outcomes of the backend's \<open>importBalancesSnapshot\<close> and
  \<open>uploadBalancesSnapshot\<close> are parameters, \<open>Inl\<close> the message of the error thrown. The
  two uploader components, which are told to drop their file at the end, are not part
  of the state.
\<close>

record 'file import_state =
  balanceSnapshotFile :: "'file option"
  locationDataSnapshotFile :: "'file option"
  importSnapshotLoading :: bool
  import_shown :: "ui_message option"
  logout_scheduled :: bool

definition importFilesCompleted :: "'file import_state \<Rightarrow> bool" where
  "importFilesCompleted st \<longleftrightarrow>
     balanceSnapshotFile st \<noteq> None \<and> locationDataSnapshotFile st \<noteq> None"

definition importSnapshot ::
  "i18n \<Rightarrow> bool \<Rightarrow> (string + unit) \<Rightarrow> (string + unit) \<Rightarrow> 'file import_state \<Rightarrow> 'file import_state" where
  "importSnapshot t appSession importBalancesSnapshot uploadBalancesSnapshot st =
     (if \<not> importFilesCompleted st then st
      else
        let st1 = st\<lparr>importSnapshotLoading := True\<rparr>;
            outcome = (if appSession then importBalancesSnapshot else uploadBalancesSnapshot);
            success = (case outcome of Inl _ \<Rightarrow> False | Inr _ \<Rightarrow> True);
            msg = (case outcome of Inl m \<Rightarrow> m | Inr _ \<Rightarrow> []);
            st2 =
              (if \<not> success then
                 st1\<lparr>import_shown := Some
                      \<lparr>msg_title = Some (t ''sync_indicator.import_snapshot.messages.title'' []),
                       msg_description =
                         Some (t ''sync_indicator.import_snapshot.messages.failed_description''
                                 [(''message'', msg)]),
                       msg_success = None\<rparr>\<rparr>
               else
                 st1\<lparr>import_shown := Some
                      \<lparr>msg_title = Some (t ''sync_indicator.import_snapshot.messages.title'' []),
                       msg_description =
                         Some (t ''sync_indicator.import_snapshot.messages.success_description''
                                 [(''message'', msg)]),
                       msg_success = Some True\<rparr>,
                     logout_scheduled := True\<rparr>)
        in st2\<lparr>importSnapshotLoading := False,
               balanceSnapshotFile := None,
               locationDataSnapshotFile := None\<rparr>)"


section \<open>Snapshot editing\<close>

text \<open>
  Amounts are \<open>BigNumber\<close>s, arbitrary-precision decimals; sums and negations of them are
  exact, so they are rationals here. \<open>bigNumberSum\<close> is defined outside the component and
  adds up a list. Reading a number from a string (\<open>bigNumberify\<close>) and the rounding
  division (\<open>dividedBy\<close>) belong to the number library and are parameters of the
  functions that use them, as is the constant \<open>CURRENCY_USD\<close>.
\<close>

record BalanceSnapshot =
  balance_timestamp :: int
  category :: string
  assetIdentifier :: string
  amount :: rat
  balance_usdValue :: rat

record LocationDataSnapshot =
  timestamp :: int
  location :: string
  usdValue :: rat

definition bigNumberSum :: "rat list \<Rightarrow> rat" where
  "bigNumberSum numbers = sum_list numbers"

definition assetTotal :: "BalanceSnapshot list \<Rightarrow> rat" where
  "assetTotal balancesSnapshot =
     bigNumberSum (map (\<lambda>item. if category item = ''asset'' then balance_usdValue item
                                else - balance_usdValue item) balancesSnapshot)"

definition locationTotal :: "LocationDataSnapshot list \<Rightarrow> rat" where
  "locationTotal val =
     bigNumberSum (map (\<lambda>item. if location item = ''total'' then 0 else usdValue item) val)"

text \<open>
  The computed \<open>numericTotal\<close> of the total step. It reads the text field \<open>total\<close>, which
  the user types or \<open>setTotal\<close> fills with a suggested total, the currency of the general
  settings and \<open>fiatExchangeRate\<close>, the rate of that currency (One when there is none).
\<close>

definition numericTotal ::
  "(string \<Rightarrow> rat) \<Rightarrow> (rat \<Rightarrow> rat \<Rightarrow> rat) \<Rightarrow> string \<Rightarrow> string \<Rightarrow> rat \<Rightarrow> string \<Rightarrow> rat" where
  "numericTotal bigNumberify dividedBy CURRENCY_USD currencySymbol fiatExchangeRate total_text =
     (if total_text = [] then 0
      else if currencySymbol = CURRENCY_USD then bigNumberify total_text
      else dividedBy (bigNumberify total_text) fiatExchangeRate)"

text \<open>
  \<open>save\<close> of the total step. With no \<open>total\<close> entry the index is \<open>-1\<close> and the assignment
  to \<open>newValue[-1].usdValue\<close> throws. The list answered is the one emitted with \<open>input\<close>.
\<close>

definition save_total ::
  "(string \<Rightarrow> rat) \<Rightarrow> (rat \<Rightarrow> rat \<Rightarrow> rat) \<Rightarrow> string \<Rightarrow> string \<Rightarrow> rat \<Rightarrow> string \<Rightarrow>
   LocationDataSnapshot list \<Rightarrow> js_error + LocationDataSnapshot list" where
  "save_total bigNumberify dividedBy CURRENCY_USD currencySymbol fiatExchangeRate total_text val =
     (let index = findIndex (\<lambda>item. location item = ''total'') val
      in if index < 0 then Inl TypeError
         else Inr (val[nat index := (val ! nat index)
                     \<lparr>usdValue := numericTotal bigNumberify dividedBy CURRENCY_USD
                                    currencySymbol fiatExchangeRate total_text\<rparr>]))"

text \<open>
  The dialog that edits a snapshot. Its state is the \<open>snapshotData\<close> ref (null until
  loaded) and the notifications raised. \<open>fetchSnapshotData\<close> awaits the backend's
  \<open>getSnapshotData\<close> outside any \<open>try\<close> block, so an error thrown escapes it; it sorts the
  two lists in place with the helper \<open>sortDesc\<close>, defined outside the sources: the two
  sorts are the parameters \<open>sortBalances\<close> and \<open>sortLocations\<close>.
\<close>

record Snapshot =
  balancesSnapshot :: "BalanceSnapshot list"
  locationDataSnapshot :: "LocationDataSnapshot list"

record snapshot_dialog =
  snapshotData :: "Snapshot option"
  dialog_notifications :: "notification list"

definition fetchSnapshotData ::
  "(BalanceSnapshot list \<Rightarrow> BalanceSnapshot list) \<Rightarrow>
   (LocationDataSnapshot list \<Rightarrow> LocationDataSnapshot list) \<Rightarrow>
   (api_error + Snapshot) \<Rightarrow> snapshot_dialog \<Rightarrow> api_error + snapshot_dialog" where
  "fetchSnapshotData sortBalances sortLocations getSnapshotData st =
     (case getSnapshotData of
        Inl e \<Rightarrow> Inl e
      | Inr result \<Rightarrow>
          Inr (st\<lparr>snapshotData := Some
                 \<lparr>balancesSnapshot = sortBalances (balancesSnapshot result),
                  locationDataSnapshot = sortLocations (locationDataSnapshot result)\<rparr>\<rparr>))"

text \<open>
  \<open>notifyError\<close> hands what it is given, the error caught or nothing, to the translation
  function as the parameter \<open>message\<close>; here that function takes such values.
\<close>

definition notifyError ::
  "(string \<Rightarrow> (string \<times> api_error option) list \<Rightarrow> string) \<Rightarrow> api_error option \<Rightarrow>
   snapshot_dialog \<Rightarrow> snapshot_dialog" where
  "notifyError t e st =
     st\<lparr>dialog_notifications := dialog_notifications st @
          [\<lparr>display = True, severity = None,
            title = t ''dashboard.snapshot.edit.dialog.message.title'' [],
            message = t ''dashboard.snapshot.edit.dialog.message.error'' [(''message'', e)]\<rparr>]\<rparr>"

text \<open>
  \<open>save\<close> of the dialog. The outcome of the backend's \<open>updateSnapshotData\<close> is a
  parameter, \<open>Inl\<close> the error thrown; the payload handed to it is not modelled. After an
  update that answered true the snapshot is fetched again, and an error of that call
  escapes \<open>save\<close>.
\<close>

definition save_snapshot ::
  "(string \<Rightarrow> (string \<times> api_error option) list \<Rightarrow> string) \<Rightarrow>
   (BalanceSnapshot list \<Rightarrow> BalanceSnapshot list) \<Rightarrow>
   (LocationDataSnapshot list \<Rightarrow> LocationDataSnapshot list) \<Rightarrow>
   (api_error + bool) \<Rightarrow> (api_error + Snapshot) \<Rightarrow> snapshot_dialog \<Rightarrow>
   api_error + (bool \<times> snapshot_dialog)" where
  "save_snapshot t sortBalances sortLocations updateSnapshotData getSnapshotData st =
     (case snapshotData st of
        None \<Rightarrow> Inr (False, st)
      | Some data \<Rightarrow>
          (let result = (case updateSnapshotData of Inr r \<Rightarrow> r | Inl e \<Rightarrow> False);
               st1 = (case updateSnapshotData of
                        Inr r \<Rightarrow> if \<not> r then notifyError t None st else st
                      | Inl e \<Rightarrow> notifyError t (Some e) st)
           in if result
              then (case fetchSnapshotData sortBalances sortLocations getSnapshotData st1 of
                      Inl e \<Rightarrow> Inl e
                    | Inr st2 \<Rightarrow> Inr (True, st2))
              else Inr (False, st1)))"

text \<open>
  The form of one balance of a snapshot. Its watcher on \<open>form\<close> runs \<open>checkAssetType\<close>.
  Its watcher on \<open>assetType\<close> runs when that value has changed, be it through
  \<open>checkAssetType\<close> or through the radio buttons bound to it, and emits \<open>update:form\<close>
  with the amount set to 1 when the new value is \<open>nft\<close>. \<open>watch_form\<close> is the watcher on
  \<open>form\<close> followed by the one on \<open>assetType\<close>; it answers the new \<open>assetType\<close> and the
  form emitted, if any; the \<open>onBeforeMount\<close> hook runs \<open>checkAssetType\<close> in the same way.
  \<open>isNft\<close> is defined outside the component and is a parameter.
\<close>

record BalanceSnapshotPayloadAndLocation =
  form_timestamp :: int
  form_category :: string
  form_assetIdentifier :: string
  form_amount :: string
  form_usdValue :: string
  form_location :: string

definition checkAssetType ::
  "(string \<Rightarrow> bool) \<Rightarrow> BalanceSnapshotPayloadAndLocation \<Rightarrow> string \<Rightarrow> string" where
  "checkAssetType isNft formVal assetType =
     (if isNft (form_assetIdentifier formVal) then ''nft'' else assetType)"

definition watch_assetType ::
  "BalanceSnapshotPayloadAndLocation \<Rightarrow> string \<Rightarrow> string \<Rightarrow>
   BalanceSnapshotPayloadAndLocation option" where
  "watch_assetType formVal oldType assetType =
     (if assetType \<noteq> oldType \<and> assetType = ''nft''
      then Some (formVal\<lparr>form_amount := ''1''\<rparr>)
      else None)"

definition watch_form ::
  "(string \<Rightarrow> bool) \<Rightarrow> BalanceSnapshotPayloadAndLocation \<Rightarrow> string \<Rightarrow>
   string \<times> BalanceSnapshotPayloadAndLocation option" where
  "watch_form isNft formVal assetType =
     (let assetType' = checkAssetType isNft formVal assetType
      in (assetType', watch_assetType formVal assetType assetType'))"

text \<open>An example snapshot, number library and balances.\<close>

definition nft_prefix :: "string \<Rightarrow> bool" where
  "nft_prefix s \<longleftrightarrow> take 5 s = ''_nft_''"

definition nft_balance :: BalanceSnapshotPayloadAndLocation where
  "nft_balance =
     \<lparr>form_timestamp = 1, form_category = ''asset'', form_assetIdentifier = ''_nft_0xabc_7'',
      form_amount = ''5'', form_usdValue = ''300'', form_location = ''blockchain''\<rparr>"

definition eth_balance :: BalanceSnapshotPayloadAndLocation where
  "eth_balance =
     \<lparr>form_timestamp = 1, form_category = ''asset'', form_assetIdentifier = ''ETH'',
      form_amount = ''5'', form_usdValue = ''300'', form_location = ''blockchain''\<rparr>"

definition demo_locations :: "LocationDataSnapshot list" where
  "demo_locations =
     [\<lparr>timestamp = 1, location = ''kraken'', usdValue = 40\<rparr>,
      \<lparr>timestamp = 1, location = ''total'', usdValue = 100\<rparr>,
      \<lparr>timestamp = 1, location = ''blockchain'', usdValue = 60\<rparr>]"

definition demo_bigNumberify :: "string \<Rightarrow> rat" where
  "demo_bigNumberify s = (if s = ''250'' then 250 else if s = ''500'' then 500 else 0)"

definition demo_dividedBy :: "rat \<Rightarrow> rat \<Rightarrow> rat" where
  "demo_dividedBy a b = a / b"

definition demo_balances :: "BalanceSnapshot list" where
  "demo_balances =
     [\<lparr>balance_timestamp = 1, category = ''asset'', assetIdentifier = ''BTC'', amount = 2,
       balance_usdValue = 70\<rparr>,
      \<lparr>balance_timestamp = 1, category = ''liability'', assetIdentifier = ''DAI'', amount = 20,
       balance_usdValue = 20\<rparr>,
      \<lparr>balance_timestamp = 1, category = ''asset'', assetIdentifier = ''ETH'', amount = 5,
       balance_usdValue = 50\<rparr>]"

text \<open>Example states and backend outcomes for the failing calls.\<close>

definition empty_asset_form :: asset_form where
  "empty_asset_form = \<lparr>form_identifier = [], types = [], errors = [], shown = None\<rparr>"

definition name_taken :: api_error where
  "name_taken =
     ApiValidationError ''name: Asset name already exists''
       (ValidationErrors
          \<lparr>underlyingTokens = None, schema = None,
           field_errors = [(''name'', [''Asset name already exists''])]\<rparr>)"

definition no_icon :: "string \<Rightarrow> api_error + unit" where
  "no_icon newIdentifier = Inr ()"

definition demo_services :: services_state where
  "demo_services =
     \<lparr>ethereumTab = [], optimismTab = [], polygonPosTab = [], cryptocompareKey = ''abc'',
      covalentKey = [], beaconchainKey = [], loopringKey = [], openseaKey = [],
      services_loading = False, services_message = None, prioritized = []\<rparr>"

definition demo_dialog :: snapshot_dialog where
  "demo_dialog =
     \<lparr>snapshotData = Some \<lparr>balancesSnapshot = demo_balances,
                               locationDataSnapshot = demo_locations\<rparr>,
      dialog_notifications = []\<rparr>"

definition demo_te :: "string \<Rightarrow> (string \<times> api_error option) list \<Rightarrow> string" where
  "demo_te k params =
     k @ concat (map (\<lambda>(n, v). '' '' @ n @ ''='' @
                        (case v of
                           None \<Rightarrow> ''undefined''
                         | Some (PlainError m) \<Rightarrow> ''Error: '' @ m
                         | Some (ApiValidationError m r) \<Rightarrow> ''Error: '' @ m)) params)"

definition demo_import :: "string import_state" where
  "demo_import =
     \<lparr>balanceSnapshotFile = Some ''balances_snapshot_import.csv'',
      locationDataSnapshotFile = Some ''location_data_snapshot_import.csv'',
      importSnapshotLoading = False, import_shown = None, logout_scheduled = False\<rparr>"

definition weight_errors_only :: api_error where
  "weight_errors_only =
     ApiValidationError ''underlying_tokens: invalid''
       (ValidationErrors
          \<lparr>underlyingTokens = Some (TokenErrors
             [(''weight'', \<lparr>address_errors = Some [''Not a valid address''],
                             weight_errors = None\<rparr>)]),
           schema = None,
           field_errors = [(''name'', [''Asset name already exists''])]\<rparr>)"

definition schema_error :: api_error where
  "schema_error =
     ApiValidationError ''_schema: invalid''
       (ValidationErrors
          \<lparr>underlyingTokens = None,
           schema = Some [''Weights must add up to 100''],
           field_errors = [(''name'', [''Asset name already exists''])]\<rparr>)"

definition icon_fails :: "string \<Rightarrow> api_error + unit" where
  "icon_fails newIdentifier = Inl (PlainError ''Upload failed'')"


section \<open>The page selector lists the pages\<close>

lemma ceiling_quotient_pos:
  assumes "0 < N" and "0 < p"
  shows "0 < \<lceil>real_of_int N / real_of_int p\<rceil>"
  using assms by (simp add: ceiling_divide_eq_div pos_imp_zdiv_neg_iff)

text \<open>
  Claim C2, amended. For \<open>N > 0\<close> items and \<open>p > 0\<close> items per page, both safe integers
  (below \<open>2^53\<close>), and fewer than \<open>2^32\<close> pages, \<open>pageSelectorData\<close> answers exactly
  \<open>\<lceil>N / p\<rceil>\<close> entries, and the entry at index \<open>i\<close> has value \<open>i + 1\<close> and the text
  \<open>i * p + 1\<close>, \<open>" - "\<close>, \<open>min ((i + 1) * p) N\<close>.
\<close>

theorem pageSelectorData_pages:
  assumes "0 < N" and "0 < p" and "N < 2 ^ 53" and "p < 2 ^ 53"
    and "\<lceil>real_of_int N / real_of_int p\<rceil> < 2 ^ 32"
  shows "\<exists>pages. pageSelectorData p N = Some (Inr pages) \<and>
           int (length pages) = \<lceil>real_of_int N / real_of_int p\<rceil> \<and>
           (\<forall>i < length pages.
              pages ! i = \<lparr>pvalue = i + 1,
                            ptext = show_int (int i * p + 1) @ '' - '' @
                                    show_int (min ((int i + 1) * p) N)\<rparr>)"
proof -
  define c where "c = \<lceil>real_of_int N / real_of_int p\<rceil>"
  from ceiling_quotient_pos [OF assms(1,2)] have pos: "0 < c" by (simp only: c_def)
  from assms(5) have bound: "c < 2 ^ 32" by (simp only: c_def)
  have dom: "\<not> (N < 0 \<or> \<not> safe_integer N \<or> \<not> safe_integer p)"
    using assms by (simp add: safe_integer_def)
  have rng: "\<not> (c < 0 \<or> 2 ^ 32 \<le> c)" using pos bound by linarith
  have pz: "p \<noteq> 0" using assms(2) by simp
  have run: "pageSelectorData p N =
      Some (Inr (map (\<lambda>index.
                  \<lparr>pvalue = index + 1,
                   ptext = show_int (int index * p + 1) @ '' - '' @
                           show_int (min ((int index + 1) * p) N)\<rparr>)
                [0..<nat c]))"
    unfolding pageSelectorData_def c_def [symmetric] Let_def
    by (simp only: if_not_P [OF dom] if_not_P [OF rng] if_not_P [OF pz])
  have len: "int (length [0..<nat c]) = c" using pos by simp
  show ?thesis
    unfolding c_def [symmetric] using run len by simp
qed

text \<open>Twenty-five items, ten on a page: three pages, the last one shorter.\<close>

theorem pageSelectorData_pages_witness:
  "(0::int) < 25 \<and> (0::int) < 10 \<and> (25::int) < 2 ^ 53 \<and> (10::int) < 2 ^ 53 \<and>
   \<lceil>real_of_int 25 / real_of_int 10\<rceil> < 2 ^ 32 \<and>
   (\<exists>pages. pageSelectorData 10 25 = Some (Inr pages) \<and> length pages = 3 \<and>
      pages ! 0 = \<lparr>pvalue = 1, ptext = ''1 - 10''\<rparr> \<and>
      pages ! 1 = \<lparr>pvalue = 2, ptext = ''11 - 20''\<rparr> \<and>
      pages ! 2 = \<lparr>pvalue = 3, ptext = ''21 - 25''\<rparr>)"
proof -
  have N: "(0::int) < 25" and p: "(0::int) < 10" by simp_all
  have Nb: "(25::int) < 2 ^ 53" and pb: "(10::int) < 2 ^ 53" by simp_all
  have c: "\<lceil>real_of_int 25 / real_of_int 10\<rceil> < 2 ^ 32" by simp
  from pageSelectorData_pages [OF N p Nb pb c] obtain pages where
    r: "pageSelectorData 10 25 = Some (Inr pages)" and
    l: "int (length pages) = \<lceil>real_of_int 25 / real_of_int 10\<rceil>" and
    e: "\<forall>i < length pages.
              pages ! i = \<lparr>pvalue = i + 1,
                            ptext = show_int (int i * 10 + 1) @ '' - '' @
                                    show_int (min ((int i + 1) * 10) 25)\<rparr>"
    by blast
  from l have l3: "length pages = 3" by simp
  from e l3 have "pages ! 0 = \<lparr>pvalue = 1, ptext = ''1 - 10''\<rparr>"
    by (simp add: show_int_def show_nat.simps digit_char_def)
  moreover from e l3 have "pages ! 1 = \<lparr>pvalue = 2, ptext = ''11 - 20''\<rparr>"
    by (simp add: show_int_def show_nat.simps digit_char_def)
  moreover from e l3 have "pages ! 2 = \<lparr>pvalue = 3, ptext = ''21 - 25''\<rparr>"
    by (simp add: show_int_def show_nat.simps digit_char_def)
  ultimately show ?thesis using r l3 N p Nb pb c by simp
qed

text \<open>
  The claim as first stated has no bound: with \<open>2^32\<close> items, one on a page, the array of
  the pages cannot be created.
\<close>

theorem too_many_pages_counterexample:
  "pageSelectorData 1 4294967296 = Some (Inl RangeError)"
  by (simp add: pageSelectorData_def safe_integer_def Let_def)

text \<open>A negative page size gives a negative page count, and no array of that length.\<close>

lemma all_items_option: "pageSelectorData (- 1) 25 = Some (Inl RangeError)"
  by (simp add: pageSelectorData_def safe_integer_def Let_def)


section \<open>Removing a backup\<close>

lemma findIndex_split:
  assumes "\<exists>x\<in>set xs. P x"
  shows "\<exists>pre x post. xs = pre @ x # post \<and> P x \<and> (\<forall>y\<in>set pre. \<not> P y) \<and>
           findIndex P xs = int (length pre)"
  using assms
proof (induction xs)
  case Nil
  then show ?case by simp
next
  case (Cons a xs)
  show ?case
  proof (cases "P a")
    case True
    then have "a # xs = [] @ a # xs \<and> P a \<and> (\<forall>y\<in>set []. \<not> P y) \<and>
           findIndex P (a # xs) = int (length ([]::'a list))" by simp
    then show ?thesis by blast
  next
    case False
    with Cons.prems have "\<exists>x\<in>set xs. P x" by simp
    from Cons.IH [OF this] obtain pre x post where
      h: "xs = pre @ x # post" "P x" "\<forall>y\<in>set pre. \<not> P y" "findIndex P xs = int (length pre)"
      by blast
    with False have "a # xs = (a # pre) @ x # post \<and> P x \<and> (\<forall>y\<in>set (a # pre). \<not> P y) \<and>
           findIndex P (a # xs) = int (length (a # pre))" by (simp add: Let_def)
    then show ?thesis by blast
  qed
qed

lemma splice1_at: "splice1 (int (length pre)) (pre @ x # post) = pre @ post"
  by (simp add: splice1_def Let_def)

text \<open>
  Claim C7. When \<open>db\<close> occurs in the backups list: if the backend's delete resolves,
  \<open>remove\<close> deletes exactly the first entry of the list that is the same entry as \<open>db\<close>
  (same version, time and size), drops every such entry from the selection and raises
  no notification; if the delete throws, the backups and the selection are unchanged
  and one notification carrying the file path and the error's message is raised.
\<close>

theorem remove_backup:
  assumes occurs: "\<exists>b \<in> set (backups_of st). isSameEntry b db"
  shows "(deleteBackup [getFilepath db (directory st)] = Inr r \<longrightarrow>
            (\<exists>pre b post.
               backups_of st = pre @ b # post \<and> isSameEntry b db \<and>
               (\<forall>x \<in> set pre. \<not> isSameEntry x db) \<and>
               backups_of (remove' deleteBackup getFilepath t db st) = pre @ post) \<and>
            selected (remove' deleteBackup getFilepath t db st) =
              filter (\<lambda>item. \<not> isSameEntry item db) (selected st) \<and>
            notifications (remove' deleteBackup getFilepath t db st) = notifications st) \<and>
         (deleteBackup [getFilepath db (directory st)] = Inl msg \<longrightarrow>
            backupInfo (remove' deleteBackup getFilepath t db st) = backupInfo st \<and>
            selected (remove' deleteBackup getFilepath t db st) = selected st \<and>
            notifications (remove' deleteBackup getFilepath t db st) =
              notifications st @
                [\<lparr>display = True, severity = None,
                  title = t ''database_backups.delete_error.title'' [],
                  message = t ''database_backups.delete_error.message''
                              [(''file'', getFilepath db (directory st)), (''message'', msg)]\<rparr>])"
proof (intro conjI impI)
  assume ok: "deleteBackup [getFilepath db (directory st)] = Inr r"
  from occurs obtain i where i: "backupInfo st = Some i"
    by (cases "backupInfo st") (auto simp: backups_of_def)
  with occurs have "\<exists>b \<in> set (backups (userdb i)). isSameEntry b db"
    by (simp add: backups_of_def)
  from findIndex_split [where P = "\<lambda>backup. isSameEntry backup db", OF this]
  obtain pre b post where
    h: "backups (userdb i) = pre @ b # post" "isSameEntry b db"
       "\<forall>y\<in>set pre. \<not> isSameEntry y db"
       "findIndex (\<lambda>backup. isSameEntry backup db) (backups (userdb i)) = int (length pre)"
    by blast
  have "backups_of (remove' deleteBackup getFilepath t db st) = pre @ post"
    using ok i h(1) h(4) splice1_at [of pre b post]
    by (simp add: remove'_def Let_def backups_of_def)
  with h i show "\<exists>pre b post.
               backups_of st = pre @ b # post \<and> isSameEntry b db \<and>
               (\<forall>x \<in> set pre. \<not> isSameEntry x db) \<and>
               backups_of (remove' deleteBackup getFilepath t db st) = pre @ post"
    by (auto simp: backups_of_def)
  show "selected (remove' deleteBackup getFilepath t db st) =
              filter (\<lambda>item. \<not> isSameEntry item db) (selected st)"
    using ok i by (simp add: remove'_def Let_def)
  show "notifications (remove' deleteBackup getFilepath t db st) = notifications st"
    using ok i by (simp add: remove'_def Let_def)
next
  assume ko: "deleteBackup [getFilepath db (directory st)] = Inl msg"
  then show "backupInfo (remove' deleteBackup getFilepath t db st) = backupInfo st"
    by (simp add: remove'_def Let_def notify_def)
  from ko show "selected (remove' deleteBackup getFilepath t db st) = selected st"
    by (simp add: remove'_def Let_def notify_def)
  from ko show "notifications (remove' deleteBackup getFilepath t db st) =
              notifications st @
                [\<lparr>display = True, severity = None,
                  title = t ''database_backups.delete_error.title'' [],
                  message = t ''database_backups.delete_error.message''
                              [(''file'', getFilepath db (directory st)), (''message'', msg)]\<rparr>]"
    by (simp add: remove'_def Let_def notify_def)
qed

text \<open>
  The theorem at the example page, once with a delete that resolves and once with one
  that throws. The first of the two equal backups goes, the other stays.
\<close>

theorem remove_backup_witness:
  "(\<exists>b \<in> set (backups_of demo_backups). isSameEntry b backup_a) \<and>
   delete_resolves [demo_getFilepath backup_a (directory demo_backups)] = Inr True \<and>
   delete_throws [demo_getFilepath backup_a (directory demo_backups)] = Inl ''permission denied'' \<and>
   backups_of demo_backups = [backup_b, backup_a, backup_a] \<and>
   backups_of (remove' delete_resolves demo_getFilepath demo_t backup_a demo_backups) =
     [backup_b, backup_a] \<and>
   selected (remove' delete_resolves demo_getFilepath demo_t backup_a demo_backups) = [backup_b] \<and>
   notifications (remove' delete_resolves demo_getFilepath demo_t backup_a demo_backups) = [] \<and>
   backupInfo (remove' delete_throws demo_getFilepath demo_t backup_a demo_backups) =
     backupInfo demo_backups \<and>
   selected (remove' delete_throws demo_getFilepath demo_t backup_a demo_backups) =
     [backup_a, backup_b] \<and>
   notifications (remove' delete_throws demo_getFilepath demo_t backup_a demo_backups) =
     [\<lparr>display = True, severity = None,
       title = ''database_backups.delete_error.title'',
       message = ''database_backups.delete_error.message file=/data/user/1000.backup message=permission denied''\<rparr>]"
proof -
  have occ: "\<exists>b \<in> set (backups_of demo_backups). isSameEntry b backup_a"
    by (simp add: backups_of_def demo_backups_def isSameEntry_def)
  have ok: "delete_resolves [demo_getFilepath backup_a (directory demo_backups)] = Inr True"
    by (simp add: delete_resolves_def)
  have ko: "delete_throws [demo_getFilepath backup_a (directory demo_backups)] =
              Inl ''permission denied''"
    by (simp add: delete_throws_def)
  have bs: "backups_of demo_backups = [backup_b, backup_a, backup_a]"
    by (simp add: backups_of_def demo_backups_def)
  have ne: "\<not> isSameEntry backup_b backup_a"
    by (simp add: isSameEntry_def backup_a_def backup_b_def)
  have eq: "isSameEntry backup_a backup_a" by (simp add: isSameEntry_def)
  have sel: "selected demo_backups = [backup_a, backup_b]" by (simp add: demo_backups_def)
  have nots: "notifications demo_backups = []" by (simp add: demo_backups_def)
  have fp: "demo_getFilepath backup_a (directory demo_backups) = ''/data/user/1000.backup''"
    by (simp add: demo_getFilepath_def directory_def demo_backups_def backup_a_def Let_def
        show_nat.simps digit_char_def)
  note good = remove_backup [OF occ, of delete_resolves demo_getFilepath True demo_t
      "''permission denied''"]
  note bad = remove_backup [OF occ, of delete_throws demo_getFilepath True demo_t
      "''permission denied''"]
  from good ok obtain pre b post where
    sp: "backups_of demo_backups = pre @ b # post" "isSameEntry b backup_a"
        "\<forall>x \<in> set pre. \<not> isSameEntry x backup_a" and
    res: "backups_of (remove' delete_resolves demo_getFilepath demo_t backup_a demo_backups) =
            pre @ post"
    by blast
  have "pre = [backup_b] \<and> post = [backup_a]"
  proof (cases pre)
    case Nil
    with sp(1) bs have "b = backup_b" by simp
    with sp(2) ne show ?thesis by simp
  next
    case (Cons x pre')
    with sp(1) bs have x: "x = backup_b" and rest: "pre' @ b # post = [backup_a, backup_a]"
      by simp_all
    show ?thesis
    proof (cases pre')
      case Nil
      with rest Cons x show ?thesis by simp
    next
      case (Cons y pre'')
      with rest have "y = backup_a" by simp
      with Cons \<open>pre = x # pre'\<close> sp(3) eq show ?thesis by simp
    qed
  qed
  with res have r1: "backups_of (remove' delete_resolves demo_getFilepath demo_t backup_a
      demo_backups) = [backup_b, backup_a]" by simp
  from good ok sel ne eq have r2:
    "selected (remove' delete_resolves demo_getFilepath demo_t backup_a demo_backups) = [backup_b]"
    by simp
  from good ok nots have r3:
    "notifications (remove' delete_resolves demo_getFilepath demo_t backup_a demo_backups) = []"
    by simp
  from bad ko have r4:
    "backupInfo (remove' delete_throws demo_getFilepath demo_t backup_a demo_backups) =
       backupInfo demo_backups"
    by simp
  from bad ko sel have r5:
    "selected (remove' delete_throws demo_getFilepath demo_t backup_a demo_backups) =
       [backup_a, backup_b]"
    by simp
  from bad ko nots fp have r6:
    "notifications (remove' delete_throws demo_getFilepath demo_t backup_a demo_backups) =
     [\<lparr>display = True, severity = None,
       title = ''database_backups.delete_error.title'',
       message = ''database_backups.delete_error.message file=/data/user/1000.backup message=permission denied''\<rparr>]"
    by (simp add: demo_t_def)
  from occ ok ko bs r1 r2 r3 r4 r5 r6 show ?thesis by blast
qed


section \<open>The table filter: from chips to the emitted object and back\<close>

lemma updateLoop_append:
  "updateLoop ms (xs @ ys) acc =
     (case updateLoop ms xs acc of Inl e \<Rightarrow> Inl e | Inr acc' \<Rightarrow> updateLoop ms ys acc')"
  by (induction xs arbitrary: acc) (auto split: sum.splits)

lemma matcherForKey_SomeD:
  "matcherForKey ms k = Some m \<Longrightarrow> m \<in> set ms \<and> matcher_key m = k"
  unfolding matcherForKey_def by (auto simp: find_Some_iff)

lemma find_distinct_map:
  "distinct (map f xs) \<Longrightarrow> x \<in> set xs \<Longrightarrow> find (\<lambda>y. f y = f x) xs = Some x"
  by (induction xs) auto

lemma well_keyed_valueKey:
  "well_keyed ms \<Longrightarrow> m \<in> set ms \<Longrightarrow> keyValue m = Some (valueKey m)"
  unfolding well_keyed_def valueKey_def by (auto split: option.splits)

lemma well_keyed_found:
  assumes "well_keyed ms" and "m \<in> set ms"
  shows "matcherForKeyValue ms (valueKey m) = Some m"
proof -
  have "distinct (map keyValue ms)" using assms(1) by (simp add: well_keyed_def)
  from find_distinct_map [OF this assms(2)]
  show ?thesis
    unfolding matcherForKeyValue_def using well_keyed_valueKey [OF assms] by simp
qed

lemma well_keyed_inj:
  assumes "well_keyed ms" and "m \<in> set ms" and "m' \<in> set ms" and "valueKey m = valueKey m'"
  shows "m = m'"
proof -
  have "keyValue m = keyValue m'"
    using well_keyed_valueKey [OF assms(1,2)] well_keyed_valueKey [OF assms(1,3)] assms(4) by simp
  moreover have "inj_on keyValue (set ms)"
    using assms(1) by (simp add: well_keyed_def distinct_map)
  ultimately show ?thesis using assms(2,3) by (auto dest: inj_onD)
qed

lemma update_fresh: "k \<notin> fst ` set al \<Longrightarrow> AList.update k v al = al @ [(k, v)]"
  by (induction al) auto

lemma restoreSelection_append:
  "restoreSelection ms old (al @ bl) = restoreSelection ms old al @ restoreSelection ms old bl"
  by (simp add: restoreSelection_def)

lemma restoreSelection_update_many:
  assumes "map_of al k = Some (Many vs)" and "matcherForKeyValue ms k = Some m"
  shows "mset (restoreSelection ms old (AList.update k (Many (vs @ [tk])) al)) =
         mset (restoreSelection ms old al) + {#restoreValue m old tk#}"
  using assms
  by (induction al) (auto simp: restoreSelection_def restoreEntry_def split: if_splits)

text \<open>What a restorable entry contributes and how it is read back.\<close>

lemma restorable_entryD:
  assumes "restorable_entry ms e"
  shows "\<exists>m tk. matcherForKey ms (key e) = Some m \<and>
           transformedKeyword m e = Some tk \<and> tk \<noteq> [] \<and>
           (\<forall>old. restoreValue m old tk = restored e)"
proof -
  from assms obtain m where m: "matcherForKey ms (key e) = Some m"
    by (auto simp: restorable_entry_def split: option.splits)
  from assms m obtain a sg valid ser deser where k: "kind m = StringMatcher a sg valid ser deser"
    by (cases "kind m") (auto simp: restorable_entry_def)
  from assms m k obtain v where v: "value' e = StrV v"
    by (cases "value' e") (auto simp: restorable_entry_def)
  define s where "s = (case ser of None \<Rightarrow> v | Some f \<Rightarrow> if f v = [] then v else f v)"
  define d where "d = (case deser of None \<Rightarrow> s | Some g \<Rightarrow> if g s = [] then s else g s)"
  from assms m k v have ok: "valid v" "v \<noteq> [] \<or> exclude e" "d = v" "exclude e \<or> \<not> startsWithBang s"
    unfolding s_def d_def by (auto simp: restorable_entry_def Let_def)
  define tk where "tk = (if exclude e then CHR ''!'' # s else s)"
  have s_ne: "v \<noteq> [] \<Longrightarrow> s \<noteq> []" by (auto simp: s_def split: option.splits)
  have t: "transformedKeyword m e = Some tk"
    using k v ok(1) by (simp add: transformedKeyword_def Let_def tk_def s_def)
  have ne: "tk \<noteq> []" using ok(2) s_ne by (auto simp: tk_def)
  have km: "matcher_key m = key e" using matcherForKey_SomeD [OF m] by simp
  have r: "restoreValue m old tk = restored e" for old
  proof (cases "exclude e")
    case True
    then show ?thesis
      using k v ok(3) km
      by (auto simp: restoreValue_def Let_def tk_def startsWithBang_def restored_def d_def
          split: option.splits)
  next
    case False
    with ok(4) have "\<not> startsWithBang s" by simp
    with False show ?thesis
      using k v ok(3) km
      by (auto simp: restoreValue_def Let_def tk_def restored_def d_def split: option.splits)
  qed
  from m t ne r show ?thesis by blast
qed


lemma proto_not_inherited:
  "k \<notin> set object_prototype_names \<Longrightarrow> k \<noteq> ''__proto__''"
  by (auto simp: object_prototype_names_def)

lemma updateEntry_valid:
  assumes "matcherForKey ms (key e) = Some m" and "transformedKeyword m e = Some tk"
    and "tk \<noteq> []" and "valueKey m \<notin> set object_prototype_names"
  shows "\<not> multiple m \<Longrightarrow>
           updateEntry ms e (matched, valid) =
             Inr (AList.update (valueKey m) (Single tk) matched, valid @ [e])"
    and "multiple m \<Longrightarrow> map_of matched (valueKey m) = None \<Longrightarrow>
           updateEntry ms e (matched, valid) =
             Inr (AList.update (valueKey m) (Many [tk]) matched, valid @ [e])"
    and "multiple m \<Longrightarrow> map_of matched (valueKey m) = Some (Many vs) \<Longrightarrow>
           updateEntry ms e (matched, valid) =
             Inr (AList.update (valueKey m) (Many (vs @ [tk])) matched, valid @ [e])"
  using assms proto_not_inherited [OF assms(4)] by (simp_all add: updateEntry_def)

lemma map_of_None_fresh: "map_of al k = None \<Longrightarrow> k \<notin> fst ` set al"
  by (simp add: map_of_eq_None_iff)

lemma restoreSelection_single:
  "matcherForKeyValue ms k = Some m \<Longrightarrow> tk \<noteq> [] \<Longrightarrow>
   restoreSelection ms old [(k, Single tk)] = [restoreValue m old tk]"
  "matcherForKeyValue ms k = Some m \<Longrightarrow>
   restoreSelection ms old [(k, Many [tk])] = [restoreValue m old tk]"
  by (simp_all add: restoreSelection_def restoreEntry_def)

lemma roundtrip_invariant:
  assumes wk: "well_keyed ms"
  shows "(\<forall>e \<in> set xs. restorable_entry ms e) \<Longrightarrow> distinct (single_keys ms xs) \<Longrightarrow>
         \<exists>matched.
           updateLoop ms xs ([], []) = Inr (matched, xs) \<and>
           fst ` set matched \<subseteq> entryValueKey ms ` set xs \<and>
           (\<forall>m \<in> set ms. \<forall>val. map_of matched (valueKey m) = Some val \<longrightarrow>
               (multiple m \<longleftrightarrow> is_many val)) \<and>
           mset (restoreSelection ms old matched) = mset (map restored xs)"
proof (induction xs rule: rev_induct)
  case Nil
  show ?case by (simp add: restoreSelection_def)
next
  case (snoc e xs)
  from snoc.prems have pre: "\<forall>e \<in> set xs. restorable_entry ms e" "distinct (single_keys ms xs)"
    by (simp_all add: single_keys_def)
  from snoc.IH [OF pre] obtain matched where
    run: "updateLoop ms xs ([], []) = Inr (matched, xs)" and
    keys: "fst ` set matched \<subseteq> entryValueKey ms ` set xs" and
    shape: "\<forall>m \<in> set ms. \<forall>val. map_of matched (valueKey m) = Some val \<longrightarrow>
               (multiple m \<longleftrightarrow> is_many val)" and
    rback: "mset (restoreSelection ms old matched) = mset (map restored xs)"
    by blast
  from snoc.prems have "restorable_entry ms e" by simp
  then obtain m tk where
    m: "matcherForKey ms (key e) = Some m" and
    t: "transformedKeyword m e = Some tk" and ne: "tk \<noteq> []" and
    r: "\<forall>old. restoreValue m old tk = restored e"
    using restorable_entryD by blast
  from matcherForKey_SomeD [OF m] have mem: "m \<in> set ms" and km: "matcher_key m = key e"
    by simp_all
  have found: "matcherForKeyValue ms (valueKey m) = Some m" by (rule well_keyed_found [OF wk mem])
  have ni: "valueKey m \<notin> set object_prototype_names" using wk mem by (simp add: well_keyed_def)
  have evk: "entryValueKey ms e = valueKey m" using m by (simp add: entryValueKey_def)
  have step: "updateLoop ms (xs @ [e]) ([], []) = updateEntry ms e (matched, xs)"
    by (simp add: updateLoop_append run split: sum.splits)
  (* The three ways the slot can be written. *)
  have fresh_case:
    "\<exists>matched'. updateLoop ms (xs @ [e]) ([], []) = Inr (matched', xs @ [e]) \<and>
        fst ` set matched' \<subseteq> entryValueKey ms ` set (xs @ [e]) \<and>
        (\<forall>m \<in> set ms. \<forall>val. map_of matched' (valueKey m) = Some val \<longrightarrow>
               (multiple m \<longleftrightarrow> is_many val)) \<and>
        mset (restoreSelection ms old matched') = mset (map restored (xs @ [e]))"
    if none: "map_of matched (valueKey m) = None"
      and upd: "updateEntry ms e (matched, xs) = Inr (AList.update (valueKey m) val matched, xs @ [e])"
      and val: "multiple m \<longleftrightarrow> is_many val"
      and rest: "restoreSelection ms old [(valueKey m, val)] = [restoreValue m old tk]"
    for val
  proof -
    let ?matched' = "AList.update (valueKey m) val matched"
    have app: "?matched' = matched @ [(valueKey m, val)]"
      by (rule update_fresh [OF map_of_None_fresh [OF none]])
    have 1: "updateLoop ms (xs @ [e]) ([], []) = Inr (?matched', xs @ [e])"
      using step upd by simp
    have 2: "fst ` set ?matched' \<subseteq> entryValueKey ms ` set (xs @ [e])"
      using keys evk by (auto simp: app)
    have 3: "\<forall>m' \<in> set ms. \<forall>val'. map_of ?matched' (valueKey m') = Some val' \<longrightarrow>
               (multiple m' \<longleftrightarrow> is_many val')"
    proof (intro ballI allI impI)
      fix m' val'
      assume m': "m' \<in> set ms" and l: "map_of ?matched' (valueKey m') = Some val'"
      show "multiple m' \<longleftrightarrow> is_many val'"
      proof (cases "valueKey m' = valueKey m")
        case True
        then have "m' = m" using well_keyed_inj [OF wk m' mem] by simp
        moreover from l True have "val' = val" by (simp add: update_conv')
        ultimately show ?thesis using val by simp
      next
        case False
        with l have "map_of matched (valueKey m') = Some val'" by (simp add: update_conv')
        with shape m' show ?thesis by blast
      qed
    qed
    have 4: "mset (restoreSelection ms old ?matched') = mset (map restored (xs @ [e]))"
      using rback rest r by (simp add: app restoreSelection_append)
    from 1 2 3 4 show ?thesis by blast
  qed
  show ?case
  proof (cases "multiple m")
    case False
    (* No earlier chip has this key, so the slot is still free. *)
    have "key e \<notin> key ` set xs"
    proof
      assume "key e \<in> key ` set xs"
      then obtain x where x: "x \<in> set xs" "key x = key e" by auto
      with m False have "x \<in> set (filter (\<lambda>e. case matcherForKey ms (key e) of
                              None \<Rightarrow> False
                            | Some m \<Rightarrow> \<not> multiple m) xs)"
        by simp
      then have "key x \<in> set (single_keys ms xs)"
        unfolding single_keys_def by (simp only: set_map image_eqI)
      with x(2) have "key e \<in> set (single_keys ms xs)" by simp
      moreover from m False have "single_keys ms (xs @ [e]) = single_keys ms xs @ [key e]"
        by (simp add: single_keys_def)
      ultimately show False using snoc.prems(2) by simp
    qed
    have none: "map_of matched (valueKey m) = None"
    proof (rule ccontr)
      assume "map_of matched (valueKey m) \<noteq> None"
      then have "valueKey m \<in> fst ` set matched" by (simp add: map_of_eq_None_iff)
      with keys obtain x where x: "x \<in> set xs" "entryValueKey ms x = valueKey m" by auto
      from pre(1) x(1) have "restorable_entry ms x" by simp
      then obtain mx where mx: "matcherForKey ms (key x) = Some mx"
        by (auto simp: restorable_entry_def split: option.splits)
      from matcherForKey_SomeD [OF mx] have "mx \<in> set ms" "matcher_key mx = key x" by simp_all
      moreover from x(2) mx have "valueKey mx = valueKey m" by (simp add: entryValueKey_def)
      ultimately have "mx = m" using well_keyed_inj [OF wk _ mem] by blast
      with \<open>matcher_key mx = key x\<close> km have "key x = key e" by simp
      moreover from x(1) have "key x \<in> key ` set xs" by (rule imageI)
      ultimately show False using \<open>key e \<notin> key ` set xs\<close> by simp
    qed
    show ?thesis
      by (rule fresh_case [OF none updateEntry_valid(1) [OF m t ne ni False]])
         (simp_all add: False is_many_def restoreSelection_single [OF found] ne)
  next
    case True
    show ?thesis
    proof (cases "map_of matched (valueKey m)")
      case None
      show ?thesis
        by (rule fresh_case [OF None updateEntry_valid(2) [OF m t ne ni True None]])
           (simp_all add: True is_many_def restoreSelection_single [OF found])
    next
      case (Some val)
      with shape mem True have "is_many val" by blast
      then obtain vs where vs: "val = Many vs" by (cases val) (auto simp: is_many_def)
      let ?matched' = "AList.update (valueKey m) (Many (vs @ [tk])) matched"
      have l: "map_of matched (valueKey m) = Some (Many vs)" using Some vs by simp
      have 1: "updateLoop ms (xs @ [e]) ([], []) = Inr (?matched', xs @ [e])"
        using step updateEntry_valid(3) [OF m t ne ni True l] by simp
      have "valueKey m \<in> fst ` set matched" using l by (metis map_of_eq_None_iff option.distinct(1))
      then have "map fst ?matched' = map fst matched"
        by (simp add: update_keys)
      then have "fst ` set ?matched' = fst ` set matched"
        by (metis set_map)
      then have 2: "fst ` set ?matched' \<subseteq> entryValueKey ms ` set (xs @ [e])"
        using keys by auto
      have 3: "\<forall>m' \<in> set ms. \<forall>val'. map_of ?matched' (valueKey m') = Some val' \<longrightarrow>
               (multiple m' \<longleftrightarrow> is_many val')"
      proof (intro ballI allI impI)
        fix m' val'
        assume m': "m' \<in> set ms" and l': "map_of ?matched' (valueKey m') = Some val'"
        show "multiple m' \<longleftrightarrow> is_many val'"
        proof (cases "valueKey m' = valueKey m")
          case True
          then have "m' = m" using well_keyed_inj [OF wk m' mem] by simp
          moreover from l' True have "val' = Many (vs @ [tk])" by (simp add: update_conv')
          ultimately show ?thesis using \<open>multiple m\<close> by (simp add: is_many_def)
        next
          case False
          with l' have "map_of matched (valueKey m') = Some val'" by (simp add: update_conv')
          with shape m' show ?thesis by blast
        qed
      qed
      have 4: "mset (restoreSelection ms old ?matched') = mset (map restored (xs @ [e]))"
        using restoreSelection_update_many [OF l found, of old tk] rback r by simp
      from 1 2 3 4 show ?thesis by blast
    qed
  qed
qed






text \<open>
  Under a name that every object inherits the entry is not written as the claim says: a
  matcher with \<open>multiple\<close> emitting under \<open>constructor\<close> finds the inherited function
  there and the \<open>push\<close> throws; a string assigned to \<open>__proto__\<close> is not stored, though the
  entry stays in the selection.
\<close>

lemma inherited_name_examples:
  "updateMatches inherited_matchers [chip ''tag'' ''a'' False] = Inl TypeError \<and>
   updateMatches inherited_matchers [chip ''note'' ''a'' False] =
     Inr ([], [chip ''note'' ''a'' False])"
  by (simp add: updateMatches_def updateEntry_def matcherForKey_def transformedKeyword_def
      valueKey_def inherited_matchers_def chip_def accept_any_def accept_nonempty_def
      object_prototype_names_def)

text \<open>
  Claim C6, amended. Let every matcher have a non-empty \<open>keyValue\<close> that is not the
  name of a property every object inherits from \<open>Object.prototype\<close> (one of the twelve
  names of \<open>object_prototype_names\<close>, such as \<open>constructor\<close>, \<open>toString\<close> or
  \<open>__proto__\<close>), and let no two matchers share a \<open>keyValue\<close>. Let every entry of the
  selection belong to a string matcher, with a value
  that passes \<open>validate\<close>, is not empty unless the entry is excluded, is given back by the
  deserializer from its serialized form, and whose serialized form does not begin with
  \<open>!\<close> unless the entry is excluded. Let no matcher without \<open>multiple\<close> have two entries.
  Then \<open>updateMatches\<close> keeps the whole selection, and \<open>restoreSelection\<close> on the emitted
  object builds, up to order, one chip for every entry with the entry's key, value and
  exclusion flag (and \<open>asset = false\<close>, \<open>total = 1\<close>, \<open>index = 0\<close>).
\<close>

theorem restoreSelection_updateMatches:
  assumes "well_keyed ms"
    and "\<forall>e \<in> set pairs. restorable_entry ms e"
    and "distinct (single_keys ms pairs)"
  shows "\<exists>matched. updateMatches ms pairs = Inr (matched, pairs) \<and>
           mset (restoreSelection ms oldSelection matched) = mset (map restored pairs)"
  using roundtrip_invariant [OF assms(1), of pairs oldSelection] assms(2,3)
  unfolding updateMatches_def by blast

lemmas filter_eval =
  updateMatches_def updateEntry_def matcherForKey_def transformedKeyword_def valueKey_def
  movement_matchers_def note_matchers_def matchers_def chip_def accept_any_def
  accept_nonempty_def demo_date_validator_def demo_date_serializer_def
  demo_date_deserializer_def object_prototype_names_def

text \<open>The theorem at the deposits filter, with a serialized date and an exclusion.\<close>

theorem restoreSelection_updateMatches_witness:
  "updateMatches movement_matchers
      [chip ''start'' ''2023-01-31'' False, chip ''location'' ''kraken'' True] =
     Inr ([(''fromTimestamp'', Single ''ts:2023-01-31''), (''location'', Single ''!kraken'')],
          [chip ''start'' ''2023-01-31'' False, chip ''location'' ''kraken'' True]) \<and>
   mset (restoreSelection movement_matchers []
          [(''fromTimestamp'', Single ''ts:2023-01-31''), (''location'', Single ''!kraken'')]) =
     mset (map restored [chip ''start'' ''2023-01-31'' False, chip ''location'' ''kraken'' True])"
proof -
  let ?pairs = "[chip ''start'' ''2023-01-31'' False, chip ''location'' ''kraken'' True]"
  have wk: "well_keyed movement_matchers"
    by (simp add: well_keyed_def movement_matchers_def matchers_def valueKey_def
        object_prototype_names_def)
  have re: "\<forall>e \<in> set ?pairs. restorable_entry movement_matchers e"
    by (simp add: restorable_entry_def matcherForKey_def movement_matchers_def matchers_def
        chip_def demo_date_validator_def demo_date_serializer_def demo_date_deserializer_def
        startsWithBang_def)
  have sk: "distinct (single_keys movement_matchers ?pairs)"
    by (simp add: single_keys_def matcherForKey_def movement_matchers_def matchers_def chip_def)
  have run: "updateMatches movement_matchers ?pairs =
     Inr ([(''fromTimestamp'', Single ''ts:2023-01-31''), (''location'', Single ''!kraken'')],
          ?pairs)"
    by (simp add: filter_eval)
  from restoreSelection_updateMatches [OF wk re sk, of "[]"] run
  have "mset (restoreSelection movement_matchers []
          [(''fromTimestamp'', Single ''ts:2023-01-31''), (''location'', Single ''!kraken'')]) =
     mset (map restored ?pairs)"
    by simp
  with run show ?thesis by blast
qed

text \<open>
  Without the conditions the round trip loses entries. Two chips of the \<open>action\<close>
  matcher, which has no \<open>multiple\<close>: both stay in the selection, the second value
  replaces the first in the emitted object, and only the second chip is restored.
\<close>

theorem replaced_entry_counterexample:
  "matcherForKey movement_matchers ''action'' = Some (movement_matchers ! 1) \<and>
   validate (kind (movement_matchers ! 1)) ''deposit'' \<and>
   validate (kind (movement_matchers ! 1)) ''withdrawal'' \<and>
   updateMatches movement_matchers
      [chip ''action'' ''deposit'' False, chip ''action'' ''withdrawal'' False] =
     Inr ([(''action'', Single ''withdrawal'')],
          [chip ''action'' ''deposit'' False, chip ''action'' ''withdrawal'' False]) \<and>
   restoreSelection movement_matchers
      [chip ''action'' ''deposit'' False, chip ''action'' ''withdrawal'' False]
      [(''action'', Single ''withdrawal'')] =
     [chip ''action'' ''withdrawal'' False]"
  by (simp add: filter_eval startsWithBang_def restoreSelection_def
      restoreEntry_def restoreValue_def matcherForKeyValue_def)

text \<open>
  The other conditions are needed as well. A matcher without \<open>keyValue\<close> emits under its
  key, where \<open>matcherForKeyValue\<close> finds no matcher; and a value that begins with \<open>!\<close>
  is read back as an exclusion.
\<close>

lemma restore_without_keyValue:
  "updateMatches note_matchers [chip ''note'' ''hello'' False] =
     Inr ([(''note'', Single ''hello'')], [chip ''note'' ''hello'' False]) \<and>
   restoreSelection note_matchers [] [(''note'', Single ''hello'')] = []"
  by (simp add: filter_eval restoreSelection_def restoreEntry_def matcherForKeyValue_def)

lemma restore_bang_value:
  "updateMatches note_matchers [chip ''tag'' ''!x'' False] =
     Inr ([(''tags'', Many [''!x''])], [chip ''tag'' ''!x'' False]) \<and>
   restoreSelection note_matchers [] [(''tags'', Many [''!x''])] = [chip ''tag'' ''x'' True]"
  by (simp add: filter_eval restoreSelection_def restoreEntry_def restoreValue_def
      matcherForKeyValue_def startsWithBang_def)


section \<open>What a failing backend call leaves behind\<close>

text \<open>
  Claim C3, amended. Thirteen operations of the sources call the backend inside a
  \<open>try\<close> block: \<open>loadInfo\<close>, \<open>massRemove\<close>, \<open>remove\<close> and \<open>backup\<close> of the backup manager,
  \<open>save\<close> and \<open>confirm\<close> of the external services page, \<open>loadNodes\<close>, \<open>deleteNode\<close> and
  \<open>onActiveChange\<close> of the EVM RPC node manager, \<open>save\<close> of the snapshot dialog,
  \<open>importSnapshot\<close>, and the \<open>onBeforeMount\<close> hook and \<open>save\<close> of the asset form. When the
  backend call of one of them throws, the exception is caught.

  In the first twelve the error is surfaced: one notification is raised, or one message
  is handed to the message store, that carries the message of the error, as a parameter
  of a translated text or as the text itself. Apart from it the state is the one before
  the call, with the loading or saving flag cleared and, for \<open>importSnapshot\<close> (which
  makes the call only when both files are chosen), the two files forgotten. The \<open>save\<close>
  of the external services page shows the error in the same way when the keys were
  stored and the refresh of the loopring balances throws; the stored keys are kept
  then. The \<open>save\<close> of the snapshot dialog, when a snapshot is
  loaded, hands the error caught, not its message, to the translation; when the backend
  answers false instead of throwing, it raises the same notification with nothing for
  the translation to show.

  The \<open>save\<close> of the asset form, whether saving the asset or uploading its icon throws,
  shows the message of an error that comes with a plain message. It treats an
  \<open>ApiValidationError\<close> with structured errors differently: the messages of each field become the form's per-field \<open>errors\<close>. No message is shown then
  when the errors hold neither a non-empty \<open>underlyingTokens\<close> nor \<open>_schema\<close>; otherwise
  \<open>handleError\<close> runs first, and its message is shown as well when it completes, while
  a TypeError it throws escapes \<open>save\<close> with no field error set.
\<close>

theorem failing_backend_call:
  "loadInfo (Inl msg) t st =
     st\<lparr>loading := False,
        notifications := notifications st @
          [\<lparr>display = True, severity = None,
            title = t ''database_backups.load_error.title'' [],
            message = t ''database_backups.load_error.message'' [(''message'', msg)]\<rparr>]\<rparr> \<and>
   (deleteBackup (map (\<lambda>db. getFilepath db (directory st)) (selected st)) = Inl msg \<longrightarrow>
      massRemove deleteBackup getFilepath t st =
        st\<lparr>notifications := notifications st @
          [\<lparr>display = True, severity = None,
            title = t ''database_backups.delete_error.title'' [],
            message = t ''database_backups.delete_error.mass_message''
                        [(''message'', msg)]\<rparr>]\<rparr>) \<and>
   (deleteBackup [getFilepath db (directory st)] = Inl msg \<longrightarrow>
      remove' deleteBackup getFilepath t db st =
        st\<lparr>notifications := notifications st @
          [\<lparr>display = True, severity = None,
            title = t ''database_backups.delete_error.title'' [],
            message = t ''database_backups.delete_error.message''
                        [(''file'', getFilepath db (directory st)), (''message'', msg)]\<rparr>]\<rparr>) \<and>
   backup (Inl msg) info_result t st =
     st\<lparr>saving := False,
        notifications := notifications st @
          [\<lparr>display = True, severity = None,
            title = t ''database_backups.backup_error.title'' [],
            message = t ''database_backups.backup_error.message'' [(''message'', msg)]\<rparr>]\<rparr> \<and>
   save_key t toCapitalCase (Inl msg) fetchLoopringBalances eth opt pol serviceName sst =
     sst\<lparr>services_loading := False,
         services_message := Some
           \<lparr>msg_title = Some (t ''external_services.set.error.title'' []),
            msg_description =
              Some (t ''external_services.set.error.message'' [(''error'', msg)]),
            msg_success = Some False\<rparr>\<rparr> \<and>
   save_key t toCapitalCase (Inr ks) (Inl msg) eth opt pol ''loopring'' sst =
     (updateKeys ks sst)
       \<lparr>services_loading := False,
        services_message := Some
           \<lparr>msg_title = Some (t ''external_services.set.error.title'' []),
            msg_description =
              Some (t ''external_services.set.error.message'' [(''error'', msg)]),
            msg_success = Some False\<rparr>\<rparr> \<and>
   confirm t (Inl msg) sst =
     sst\<lparr>services_loading := False,
         services_message := Some
           \<lparr>msg_title = Some (t ''external_services.delete_error.title'' []),
            msg_description =
              Some (t ''external_services.delete_error.description'' [(''message'', msg)]),
            msg_success = Some False\<rparr>\<rparr> \<and>
   loadNodes t chain (Inl msg) nst =
     nst\<lparr>node_notifications := node_notifications nst @
          [\<lparr>node_title = t ''evm_rpc_node_manager.loading_error.title'' [(''chain'', chain)],
            node_message = msg\<rparr>]\<rparr> \<and>
   deleteNode t chain (Inl msg) fetchEvmNodes nst =
     nst\<lparr>node_shown := Some
          \<lparr>msg_title = Some (t ''evm_rpc_node_manager.delete_error.title'' [(''chain'', chain)]),
           msg_description = Some msg,
           msg_success = Some False\<rparr>\<rparr> \<and>
   onActiveChange t chain (Inl msg) fetchEvmNodes node_name nst =
     nst\<lparr>node_shown := Some
          \<lparr>msg_title = Some (t ''evm_rpc_node_manager.activate_error.title''
                                [(''node'', node_name)]),
           msg_description = Some msg,
           msg_success = Some False\<rparr>\<rparr> \<and>
   (snapshotData dst \<noteq> None \<longrightarrow>
      save_snapshot te sortBalances sortLocations (Inl e) getSnapshotData dst =
        Inr (False,
             dst\<lparr>dialog_notifications := dialog_notifications dst @
               [\<lparr>display = True, severity = None,
                 title = te ''dashboard.snapshot.edit.dialog.message.title'' [],
                 message = te ''dashboard.snapshot.edit.dialog.message.error''
                             [(''message'', Some e)]\<rparr>]\<rparr>) \<and>
      save_snapshot te sortBalances sortLocations (Inr False) getSnapshotData dst =
        Inr (False,
             dst\<lparr>dialog_notifications := dialog_notifications dst @
               [\<lparr>display = True, severity = None,
                 title = te ''dashboard.snapshot.edit.dialog.message.title'' [],
                 message = te ''dashboard.snapshot.edit.dialog.message.error''
                             [(''message'', None)]\<rparr>]\<rparr>)) \<and>
   (importFilesCompleted ist \<and>
    (if appSession then importBalancesSnapshot else uploadBalancesSnapshot) = Inl msg \<longrightarrow>
      importSnapshot t appSession importBalancesSnapshot uploadBalancesSnapshot ist =
        ist\<lparr>importSnapshotLoading := False,
            balanceSnapshotFile := None,
            locationDataSnapshotFile := None,
            import_shown := Some
              \<lparr>msg_title = Some (t ''sync_indicator.import_snapshot.messages.title'' []),
               msg_description =
                 Some (t ''sync_indicator.import_snapshot.messages.failed_description''
                         [(''message'', msg)]),
               msg_success = None\<rparr>\<rparr>) \<and>
   onBeforeMount t CUSTOM_ASSET (Inl msg) ast =
     ast\<lparr>shown := Some
          \<lparr>msg_title = None,
           msg_description = Some (t ''asset_form.types.error'' [(''message'', msg)]),
           msg_success = None\<rparr>\<rparr> \<and>
   (save_try editing editAsset addAsset saveIcon ast = Inl (err, ast') \<and>
    (err = PlainError msg \<or> err = ApiValidationError m (ValidationMessage msg)) \<longrightarrow>
      save_asset t editing editAsset addAsset saveIcon ast =
        Inr (False,
             ast'\<lparr>shown := Some
               \<lparr>msg_title = Some (if editing then t ''asset_form.edit_error'' []
                                   else t ''asset_form.add_error'' []),
                msg_description = Some msg,
                msg_success = None\<rparr>\<rparr>)) \<and>
   (save_try editing editAsset addAsset saveIcon ast =
      Inl (ApiValidationError m (ValidationErrors ve), ast') \<and>
    \<not> truthy_tokens (underlyingTokens ve) \<and> schema ve = None \<longrightarrow>
      save_asset t editing editAsset addAsset saveIcon ast =
        Inr (False, ast'\<lparr>errors := field_errors ve\<rparr>)) \<and>
   (save_try editing editAsset addAsset saveIcon ast =
      Inl (ApiValidationError m (ValidationErrors ve), ast') \<and>
    (truthy_tokens (underlyingTokens ve) \<or> schema ve \<noteq> None) \<and>
    handleError t ve = Inr shownMessage \<longrightarrow>
      save_asset t editing editAsset addAsset saveIcon ast =
        Inr (False, ast'\<lparr>shown := Some shownMessage, errors := field_errors ve\<rparr>)) \<and>
   (save_try editing editAsset addAsset saveIcon ast =
      Inl (ApiValidationError m (ValidationErrors ve), ast') \<and>
    (truthy_tokens (underlyingTokens ve) \<or> schema ve \<noteq> None) \<and>
    handleError t ve = Inl thrown \<longrightarrow>
      save_asset t editing editAsset addAsset saveIcon ast = Inl thrown)"
proof (intro conjI impI)
  show "loadInfo (Inl msg) t st =
     st\<lparr>loading := False,
        notifications := notifications st @
          [\<lparr>display = True, severity = None,
            title = t ''database_backups.load_error.title'' [],
            message = t ''database_backups.load_error.message'' [(''message'', msg)]\<rparr>]\<rparr>"
    by (simp add: loadInfo_def notify_def Let_def)
next
  assume "deleteBackup (map (\<lambda>db. getFilepath db (directory st)) (selected st)) = Inl msg"
  then show "massRemove deleteBackup getFilepath t st =
        st\<lparr>notifications := notifications st @
          [\<lparr>display = True, severity = None,
            title = t ''database_backups.delete_error.title'' [],
            message = t ''database_backups.delete_error.mass_message''
                        [(''message'', msg)]\<rparr>]\<rparr>"
    by (simp add: massRemove_def notify_def Let_def)
next
  assume "deleteBackup [getFilepath db (directory st)] = Inl msg"
  then show "remove' deleteBackup getFilepath t db st =
        st\<lparr>notifications := notifications st @
          [\<lparr>display = True, severity = None,
            title = t ''database_backups.delete_error.title'' [],
            message = t ''database_backups.delete_error.message''
                        [(''file'', getFilepath db (directory st)), (''message'', msg)]\<rparr>]\<rparr>"
    by (simp add: remove'_def notify_def Let_def)
next
  show "backup (Inl msg) info_result t st =
     st\<lparr>saving := False,
        notifications := notifications st @
          [\<lparr>display = True, severity = None,
            title = t ''database_backups.backup_error.title'' [],
            message = t ''database_backups.backup_error.message'' [(''message'', msg)]\<rparr>]\<rparr>"
    by (simp add: backup_def notify_def Let_def)
next
  show "save_key t toCapitalCase (Inl msg) fetchLoopringBalances eth opt pol serviceName sst =
     sst\<lparr>services_loading := False,
         services_message := Some
           \<lparr>msg_title = Some (t ''external_services.set.error.title'' []),
            msg_description =
              Some (t ''external_services.set.error.message'' [(''error'', msg)]),
            msg_success = Some False\<rparr>\<rparr>"
    by (simp add: save_key_def Let_def)
next
  show "save_key t toCapitalCase (Inr ks) (Inl msg) eth opt pol ''loopring'' sst =
     (updateKeys ks sst)
       \<lparr>services_loading := False,
        services_message := Some
           \<lparr>msg_title = Some (t ''external_services.set.error.title'' []),
            msg_description =
              Some (t ''external_services.set.error.message'' [(''error'', msg)]),
            msg_success = Some False\<rparr>\<rparr>"
    by (simp add: save_key_def updateKeys_def Let_def)
next
  show "confirm t (Inl msg) sst =
     sst\<lparr>services_loading := False,
         services_message := Some
           \<lparr>msg_title = Some (t ''external_services.delete_error.title'' []),
            msg_description =
              Some (t ''external_services.delete_error.description'' [(''message'', msg)]),
            msg_success = Some False\<rparr>\<rparr>"
    by (simp add: confirm_def Let_def)
next
  show "loadNodes t chain (Inl msg) nst =
     nst\<lparr>node_notifications := node_notifications nst @
          [\<lparr>node_title = t ''evm_rpc_node_manager.loading_error.title'' [(''chain'', chain)],
            node_message = msg\<rparr>]\<rparr>"
    by (simp add: loadNodes_def)
next
  show "deleteNode t chain (Inl msg) fetchEvmNodes nst =
     nst\<lparr>node_shown := Some
          \<lparr>msg_title = Some (t ''evm_rpc_node_manager.delete_error.title'' [(''chain'', chain)]),
           msg_description = Some msg,
           msg_success = Some False\<rparr>\<rparr>"
    by (simp add: deleteNode_def)
next
  show "onActiveChange t chain (Inl msg) fetchEvmNodes node_name nst =
     nst\<lparr>node_shown := Some
          \<lparr>msg_title = Some (t ''evm_rpc_node_manager.activate_error.title''
                                [(''node'', node_name)]),
           msg_description = Some msg,
           msg_success = Some False\<rparr>\<rparr>"
    by (simp add: onActiveChange_def)
next
  assume loaded: "snapshotData dst \<noteq> None"
  then show "save_snapshot te sortBalances sortLocations (Inl e) getSnapshotData dst =
        Inr (False,
             dst\<lparr>dialog_notifications := dialog_notifications dst @
               [\<lparr>display = True, severity = None,
                 title = te ''dashboard.snapshot.edit.dialog.message.title'' [],
                 message = te ''dashboard.snapshot.edit.dialog.message.error''
                             [(''message'', Some e)]\<rparr>]\<rparr>)"
    by (auto simp: save_snapshot_def notifyError_def Let_def)
  from loaded
  show "save_snapshot te sortBalances sortLocations (Inr False) getSnapshotData dst =
        Inr (False,
             dst\<lparr>dialog_notifications := dialog_notifications dst @
               [\<lparr>display = True, severity = None,
                 title = te ''dashboard.snapshot.edit.dialog.message.title'' [],
                 message = te ''dashboard.snapshot.edit.dialog.message.error''
                             [(''message'', None)]\<rparr>]\<rparr>)"
    by (auto simp: save_snapshot_def notifyError_def Let_def)
next
  assume "importFilesCompleted ist \<and>
    (if appSession then importBalancesSnapshot else uploadBalancesSnapshot) = Inl msg"
  then show "importSnapshot t appSession importBalancesSnapshot uploadBalancesSnapshot ist =
        ist\<lparr>importSnapshotLoading := False,
            balanceSnapshotFile := None,
            locationDataSnapshotFile := None,
            import_shown := Some
              \<lparr>msg_title = Some (t ''sync_indicator.import_snapshot.messages.title'' []),
               msg_description =
                 Some (t ''sync_indicator.import_snapshot.messages.failed_description''
                         [(''message'', msg)]),
               msg_success = None\<rparr>\<rparr>"
    by (simp add: importSnapshot_def Let_def)
next
  show "onBeforeMount t CUSTOM_ASSET (Inl msg) ast =
     ast\<lparr>shown := Some
          \<lparr>msg_title = None,
           msg_description = Some (t ''asset_form.types.error'' [(''message'', msg)]),
           msg_success = None\<rparr>\<rparr>"
    by (simp add: onBeforeMount_def)
next
  assume "save_try editing editAsset addAsset saveIcon ast = Inl (err, ast') \<and>
    (err = PlainError msg \<or> err = ApiValidationError m (ValidationMessage msg))"
  then show "save_asset t editing editAsset addAsset saveIcon ast =
        Inr (False,
             ast'\<lparr>shown := Some
               \<lparr>msg_title = Some (if editing then t ''asset_form.edit_error'' []
                                   else t ''asset_form.add_error'' []),
                msg_description = Some msg,
                msg_success = None\<rparr>\<rparr>)"
    by (auto simp: save_asset_def Let_def)
next
  assume "save_try editing editAsset addAsset saveIcon ast =
      Inl (ApiValidationError m (ValidationErrors ve), ast') \<and>
    \<not> truthy_tokens (underlyingTokens ve) \<and> schema ve = None"
  then show "save_asset t editing editAsset addAsset saveIcon ast =
        Inr (False, ast'\<lparr>errors := field_errors ve\<rparr>)"
    by (simp add: save_asset_def Let_def)
next
  assume "save_try editing editAsset addAsset saveIcon ast =
      Inl (ApiValidationError m (ValidationErrors ve), ast') \<and>
    (truthy_tokens (underlyingTokens ve) \<or> schema ve \<noteq> None) \<and>
    handleError t ve = Inr shownMessage"
  then show "save_asset t editing editAsset addAsset saveIcon ast =
        Inr (False, ast'\<lparr>shown := Some shownMessage, errors := field_errors ve\<rparr>)"
    by (auto simp: save_asset_def Let_def)
next
  assume "save_try editing editAsset addAsset saveIcon ast =
      Inl (ApiValidationError m (ValidationErrors ve), ast') \<and>
    (truthy_tokens (underlyingTokens ve) \<or> schema ve \<noteq> None) \<and>
    handleError t ve = Inl thrown"
  then show "save_asset t editing editAsset addAsset saveIcon ast = Inl thrown"
    by (auto simp: save_asset_def Let_def)
qed

text \<open>
  The theorem where it has a hypothesis: a mass removal and a removal the backend
  refuses, a snapshot that cannot be stored or imported, and an asset whose icon
  cannot be uploaded, whose name is taken, whose weights are wrong, and whose
  structured errors make \<open>handleError\<close> throw.
\<close>

theorem failing_backend_call_witness:
  "massRemove delete_throws demo_getFilepath demo_t demo_backups =
     demo_backups\<lparr>notifications :=
       [\<lparr>display = True, severity = None, title = ''database_backups.delete_error.title'',
         message = ''database_backups.delete_error.mass_message message=permission denied''\<rparr>]\<rparr> \<and>
   remove' delete_throws demo_getFilepath demo_t backup_b demo_backups =
     demo_backups\<lparr>notifications :=
       [\<lparr>display = True, severity = None, title = ''database_backups.delete_error.title'',
         message = ''database_backups.delete_error.message file=/data/user/2000.backup message=permission denied''\<rparr>]\<rparr> \<and>
   save_snapshot demo_te (\<lambda>xs. xs) (\<lambda>xs. xs) (Inl (PlainError ''Network Error''))
       (Inl (PlainError ''Network Error'')) demo_dialog =
     Inr (False,
          demo_dialog\<lparr>dialog_notifications :=
            [\<lparr>display = True, severity = None,
              title = ''dashboard.snapshot.edit.dialog.message.title'',
              message = ''dashboard.snapshot.edit.dialog.message.error message=Error: Network Error''\<rparr>]\<rparr>) \<and>
   save_snapshot demo_te (\<lambda>xs. xs) (\<lambda>xs. xs) (Inr False)
       (Inl (PlainError ''Network Error'')) demo_dialog =
     Inr (False,
          demo_dialog\<lparr>dialog_notifications :=
            [\<lparr>display = True, severity = None,
              title = ''dashboard.snapshot.edit.dialog.message.title'',
              message = ''dashboard.snapshot.edit.dialog.message.error message=undefined''\<rparr>]\<rparr>) \<and>
   importSnapshot demo_t True (Inl ''invalid file'') (Inr ()) demo_import =
     \<lparr>balanceSnapshotFile = None, locationDataSnapshotFile = None,
      importSnapshotLoading = False,
      import_shown = Some
        \<lparr>msg_title = Some ''sync_indicator.import_snapshot.messages.title'',
         msg_description = Some ''sync_indicator.import_snapshot.messages.failed_description message=invalid file'',
         msg_success = None\<rparr>,
      logout_scheduled = False\<rparr> \<and>
   save_asset demo_t False (Inr True) (Inr ''new-asset'') icon_fails empty_asset_form =
     Inr (False,
          empty_asset_form\<lparr>form_identifier := ''new-asset'',
            shown := Some
              \<lparr>msg_title = Some ''asset_form.add_error'', msg_description = Some ''Upload failed'',
               msg_success = None\<rparr>\<rparr>) \<and>
   save_asset demo_t False (Inr True) (Inl name_taken) no_icon empty_asset_form =
     Inr (False, empty_asset_form\<lparr>errors := [(''name'', [''Asset name already exists''])]\<rparr>) \<and>
   save_asset demo_t False (Inr True) (Inl schema_error) no_icon empty_asset_form =
     Inr (False,
          empty_asset_form\<lparr>
            shown := Some
              \<lparr>msg_title = Some ''asset_form.underlying_tokens'',
               msg_description = Some ''Weights must add up to 100'', msg_success = None\<rparr>,
            errors := [(''name'', [''Asset name already exists''])]\<rparr>) \<and>
   save_asset demo_t False (Inr True) (Inl weight_errors_only) no_icon empty_asset_form =
     Inl TypeError"
proof -
  have del_all: "delete_throws (map (\<lambda>db. demo_getFilepath db (directory demo_backups))
      (selected demo_backups)) = Inl ''permission denied''"
    by (simp add: delete_throws_def)
  have del_one: "delete_throws [demo_getFilepath backup_b (directory demo_backups)] =
      Inl ''permission denied''"
    by (simp add: delete_throws_def)
  have fp: "demo_getFilepath backup_b (directory demo_backups) = ''/data/user/2000.backup''"
    by (simp add: demo_getFilepath_def directory_def demo_backups_def backup_b_def Let_def
        show_nat.simps digit_char_def)
  have w1: "massRemove delete_throws demo_getFilepath demo_t demo_backups =
     demo_backups\<lparr>notifications :=
       [\<lparr>display = True, severity = None, title = ''database_backups.delete_error.title'',
         message = ''database_backups.delete_error.mass_message message=permission denied''\<rparr>]\<rparr>"
    using failing_backend_call [where deleteBackup = delete_throws
        and getFilepath = demo_getFilepath and st = demo_backups and t = demo_t
        and msg = "''permission denied''", THEN conjunct2, THEN conjunct1] del_all
    by (simp add: demo_t_def demo_backups_def)
  have w2: "remove' delete_throws demo_getFilepath demo_t backup_b demo_backups =
     demo_backups\<lparr>notifications :=
       [\<lparr>display = True, severity = None, title = ''database_backups.delete_error.title'',
         message = ''database_backups.delete_error.message file=/data/user/2000.backup message=permission denied''\<rparr>]\<rparr>"
    using failing_backend_call [where deleteBackup = delete_throws
        and getFilepath = demo_getFilepath and st = demo_backups and t = demo_t
        and db = backup_b and msg = "''permission denied''",
        THEN conjunct2, THEN conjunct2, THEN conjunct1] del_one
    by (simp add: demo_t_def fp) (simp add: demo_backups_def)
  have loaded: "snapshotData demo_dialog \<noteq> None" by (simp add: demo_dialog_def)
  have w3: "save_snapshot demo_te (\<lambda>xs. xs) (\<lambda>xs. xs) (Inl (PlainError ''Network Error''))
       (Inl (PlainError ''Network Error'')) demo_dialog =
     Inr (False,
          demo_dialog\<lparr>dialog_notifications :=
            [\<lparr>display = True, severity = None,
              title = ''dashboard.snapshot.edit.dialog.message.title'',
              message = ''dashboard.snapshot.edit.dialog.message.error message=Error: Network Error''\<rparr>]\<rparr>) \<and>
     save_snapshot demo_te (\<lambda>xs. xs) (\<lambda>xs. xs) (Inr False)
       (Inl (PlainError ''Network Error'')) demo_dialog =
     Inr (False,
          demo_dialog\<lparr>dialog_notifications :=
            [\<lparr>display = True, severity = None,
              title = ''dashboard.snapshot.edit.dialog.message.title'',
              message = ''dashboard.snapshot.edit.dialog.message.error message=undefined''\<rparr>]\<rparr>)"
    using failing_backend_call [where dst = demo_dialog and te = demo_te
        and sortBalances = "\<lambda>xs. xs" and sortLocations = "\<lambda>xs. xs"
        and e = "PlainError ''Network Error''"
        and getSnapshotData = "Inl (PlainError ''Network Error'')",
        THEN conjunct2, THEN conjunct2, THEN conjunct2, THEN conjunct2, THEN conjunct2,
        THEN conjunct2, THEN conjunct2, THEN conjunct2, THEN conjunct2, THEN conjunct2,
        THEN conjunct1] loaded
    by (simp add: demo_te_def) (simp add: demo_dialog_def)
  have files: "importFilesCompleted demo_import"
    by (simp add: importFilesCompleted_def demo_import_def)
  have w4: "importSnapshot demo_t True (Inl ''invalid file'') (Inr ()) demo_import =
     \<lparr>balanceSnapshotFile = None, locationDataSnapshotFile = None,
      importSnapshotLoading = False,
      import_shown = Some
        \<lparr>msg_title = Some ''sync_indicator.import_snapshot.messages.title'',
         msg_description = Some ''sync_indicator.import_snapshot.messages.failed_description message=invalid file'',
         msg_success = None\<rparr>,
      logout_scheduled = False\<rparr>"
    using failing_backend_call [where ist = demo_import and t = demo_t and appSession = True
        and importBalancesSnapshot = "Inl ''invalid file''" and uploadBalancesSnapshot = "Inr ()"
        and msg = "''invalid file''",
        THEN conjunct2, THEN conjunct2, THEN conjunct2, THEN conjunct2, THEN conjunct2,
        THEN conjunct2, THEN conjunct2, THEN conjunct2, THEN conjunct2, THEN conjunct2,
        THEN conjunct2, THEN conjunct1] files
    by (simp add: demo_t_def) (simp add: demo_import_def)
  have try_icon: "save_try False (Inr True) (Inr ''new-asset'') icon_fails empty_asset_form =
      Inl (PlainError ''Upload failed'', empty_asset_form\<lparr>form_identifier := ''new-asset''\<rparr>)"
    by (simp add: save_try_def saveAsset_def icon_fails_def Let_def)
  have w5: "save_asset demo_t False (Inr True) (Inr ''new-asset'') icon_fails empty_asset_form =
     Inr (False,
          empty_asset_form\<lparr>form_identifier := ''new-asset'',
            shown := Some
              \<lparr>msg_title = Some ''asset_form.add_error'', msg_description = Some ''Upload failed'',
               msg_success = None\<rparr>\<rparr>)"
    using failing_backend_call [where editing = False and editAsset = "Inr True"
        and addAsset = "Inr ''new-asset''" and saveIcon = icon_fails and ast = empty_asset_form
        and err = "PlainError ''Upload failed''" and msg = "''Upload failed''" and t = demo_t
        and ast' = "empty_asset_form\<lparr>form_identifier := ''new-asset''\<rparr>",
        THEN conjunct2, THEN conjunct2, THEN conjunct2, THEN conjunct2, THEN conjunct2,
        THEN conjunct2, THEN conjunct2, THEN conjunct2, THEN conjunct2, THEN conjunct2,
        THEN conjunct2, THEN conjunct2, THEN conjunct2, THEN conjunct1] try_icon
    by (simp add: demo_t_def)
  have try_name: "save_try False (Inr True) (Inl name_taken) no_icon empty_asset_form =
      Inl (ApiValidationError ''name: Asset name already exists''
             (ValidationErrors
                \<lparr>underlyingTokens = None, schema = None,
                 field_errors = [(''name'', [''Asset name already exists''])]\<rparr>),
           empty_asset_form)"
    by (simp add: save_try_def saveAsset_def name_taken_def)
  have w6: "save_asset demo_t False (Inr True) (Inl name_taken) no_icon empty_asset_form =
     Inr (False, empty_asset_form\<lparr>errors := [(''name'', [''Asset name already exists''])]\<rparr>)"
    using failing_backend_call [where editing = False and editAsset = "Inr True"
        and addAsset = "Inl name_taken" and saveIcon = no_icon and ast = empty_asset_form
        and m = "''name: Asset name already exists''"
        and ve = "\<lparr>underlyingTokens = None, schema = None,
                 field_errors = [(''name'', [''Asset name already exists''])]\<rparr>"
        and t = demo_t and ast' = empty_asset_form,
        THEN conjunct2, THEN conjunct2, THEN conjunct2, THEN conjunct2, THEN conjunct2,
        THEN conjunct2, THEN conjunct2, THEN conjunct2, THEN conjunct2, THEN conjunct2,
        THEN conjunct2, THEN conjunct2, THEN conjunct2, THEN conjunct2, THEN conjunct1]
      try_name
    by (simp add: truthy_tokens_def)
  have try_schema: "save_try False (Inr True) (Inl schema_error) no_icon empty_asset_form =
      Inl (ApiValidationError ''_schema: invalid''
             (ValidationErrors
                \<lparr>underlyingTokens = None, schema = Some [''Weights must add up to 100''],
                 field_errors = [(''name'', [''Asset name already exists''])]\<rparr>),
           empty_asset_form)"
    by (simp add: save_try_def saveAsset_def schema_error_def)
  have handled: "handleError demo_t
      \<lparr>underlyingTokens = None, schema = Some [''Weights must add up to 100''],
       field_errors = [(''name'', [''Asset name already exists''])]\<rparr> =
      Inr \<lparr>msg_title = Some ''asset_form.underlying_tokens'',
           msg_description = Some ''Weights must add up to 100'', msg_success = None\<rparr>"
    by (simp add: handleError_def demo_t_def)
  have w7: "save_asset demo_t False (Inr True) (Inl schema_error) no_icon empty_asset_form =
     Inr (False,
          empty_asset_form\<lparr>
            shown := Some
              \<lparr>msg_title = Some ''asset_form.underlying_tokens'',
               msg_description = Some ''Weights must add up to 100'', msg_success = None\<rparr>,
            errors := [(''name'', [''Asset name already exists''])]\<rparr>)"
    using failing_backend_call [where editing = False and editAsset = "Inr True"
        and addAsset = "Inl schema_error" and saveIcon = no_icon and ast = empty_asset_form
        and m = "''_schema: invalid''"
        and ve = "\<lparr>underlyingTokens = None, schema = Some [''Weights must add up to 100''],
                 field_errors = [(''name'', [''Asset name already exists''])]\<rparr>"
        and t = demo_t and ast' = empty_asset_form
        and shownMessage = "\<lparr>msg_title = Some ''asset_form.underlying_tokens'',
           msg_description = Some ''Weights must add up to 100'', msg_success = None\<rparr>",
        THEN conjunct2, THEN conjunct2, THEN conjunct2, THEN conjunct2, THEN conjunct2,
        THEN conjunct2, THEN conjunct2, THEN conjunct2, THEN conjunct2, THEN conjunct2,
        THEN conjunct2, THEN conjunct2, THEN conjunct2, THEN conjunct2, THEN conjunct2,
        THEN conjunct1]
      try_schema handled
    by simp
  have try_weight: "save_try False (Inr True) (Inl weight_errors_only) no_icon empty_asset_form =
      Inl (ApiValidationError ''underlying_tokens: invalid''
             (ValidationErrors
                \<lparr>underlyingTokens = Some (TokenErrors
                   [(''weight'', \<lparr>address_errors = Some [''Not a valid address''],
                                   weight_errors = None\<rparr>)]),
                 schema = None,
                 field_errors = [(''name'', [''Asset name already exists''])]\<rparr>),
           empty_asset_form)"
    by (simp add: save_try_def saveAsset_def weight_errors_only_def)
  have thrown: "handleError demo_t
      \<lparr>underlyingTokens = Some (TokenErrors
         [(''weight'', \<lparr>address_errors = Some [''Not a valid address''],
                         weight_errors = None\<rparr>)]),
       schema = None,
       field_errors = [(''name'', [''Asset name already exists''])]\<rparr> = Inl TypeError"
    by (simp add: handleError_def getUnderlyingTokenErrors_def Let_def)
  have w8: "save_asset demo_t False (Inr True) (Inl weight_errors_only) no_icon empty_asset_form =
     Inl TypeError"
    using failing_backend_call [where editing = False and editAsset = "Inr True"
        and addAsset = "Inl weight_errors_only" and saveIcon = no_icon and ast = empty_asset_form
        and m = "''underlying_tokens: invalid''"
        and ve = "\<lparr>underlyingTokens = Some (TokenErrors
                   [(''weight'', \<lparr>address_errors = Some [''Not a valid address''],
                                   weight_errors = None\<rparr>)]),
                 schema = None,
                 field_errors = [(''name'', [''Asset name already exists''])]\<rparr>"
        and t = demo_t and ast' = empty_asset_form and thrown = TypeError,
        THEN conjunct2, THEN conjunct2, THEN conjunct2, THEN conjunct2, THEN conjunct2,
        THEN conjunct2, THEN conjunct2, THEN conjunct2, THEN conjunct2, THEN conjunct2,
        THEN conjunct2, THEN conjunct2, THEN conjunct2, THEN conjunct2, THEN conjunct2,
        THEN conjunct2]
      try_weight thrown
    by (simp add: truthy_tokens_def)
  from w1 w2 w3 w4 w5 w6 w7 w8 show ?thesis by blast
qed

text \<open>
  The claim as first stated denies any mapping of structured validation errors to form
  fields, and has every failing backend call caught. The asset form does map them: the
  backend's error for the field \<open>name\<close> ends in the form's \<open>errors\<close> and no message is
  shown. And a backend call awaited outside a \<open>try\<close> block is not caught: an error of
  \<open>queryExternalServices\<close> escapes the \<open>onMounted\<close> hook of the external services page,
  which shows no message and leaves the loading flag set, and an error of
  \<open>getSnapshotData\<close> after a stored snapshot escapes \<open>save\<close> of the snapshot dialog, which
  raises no notification.
\<close>

theorem failing_backend_call_counterexample:
  "save_asset demo_t False (Inr True) (Inl name_taken) no_icon empty_asset_form =
     Inr (False, empty_asset_form\<lparr>errors := [(''name'', [''Asset name already exists''])]\<rparr>) \<and>
   shown (empty_asset_form\<lparr>errors := [(''name'', [''Asset name already exists''])]\<rparr>) = None \<and>
   onMounted (Inl ''Network Error'') demo_services =
     Inl (''Network Error'', demo_services\<lparr>services_loading := True\<rparr>) \<and>
   services_message (demo_services\<lparr>services_loading := True\<rparr>) = None \<and>
   save_snapshot demo_te (\<lambda>xs. xs) (\<lambda>xs. xs) (Inr True) (Inl (PlainError ''Network Error''))
       demo_dialog =
     Inl (PlainError ''Network Error'')"
  by (simp add: save_asset_def save_try_def saveAsset_def name_taken_def empty_asset_form_def
      Let_def truthy_tokens_def onMounted_def demo_services_def save_snapshot_def
      fetchSnapshotData_def demo_dialog_def)


section \<open>What ties the fields of a snapshot\<close>

lemma save_total_split:
  assumes "\<exists>item \<in> set val. location item = ''total''"
  shows "\<exists>pre tot post.
           val = pre @ tot # post \<and> location tot = ''total'' \<and>
           (\<forall>x \<in> set pre. location x \<noteq> ''total'') \<and>
           save_total bn dv usd cur rate typed val =
             Inr (pre @ tot\<lparr>usdValue := numericTotal bn dv usd cur rate typed\<rparr> # post) \<and>
           locationTotal (pre @ tot\<lparr>usdValue := numericTotal bn dv usd cur rate typed\<rparr> # post) =
             locationTotal val"
proof -
  from findIndex_split [where P = "\<lambda>item. location item = ''total''", OF assms]
  obtain pre tot post where
    h: "val = pre @ tot # post" "location tot = ''total''"
       "\<forall>y\<in>set pre. location y \<noteq> ''total''"
       "findIndex (\<lambda>item. location item = ''total'') val = int (length pre)"
    by blast
  then have "save_total bn dv usd cur rate typed val =
      Inr (pre @ tot\<lparr>usdValue := numericTotal bn dv usd cur rate typed\<rparr> # post)"
    by (simp add: save_total_def Let_def)
  moreover have "locationTotal (pre @ tot\<lparr>usdValue := numericTotal bn dv usd cur rate typed\<rparr> # post) =
      locationTotal val"
    using h(1,2) by (simp add: locationTotal_def bigNumberSum_def)
  ultimately show ?thesis using h(1,2,3) by blast
qed

text \<open>
  Claim C5, amended. When the snapshot has a \<open>total\<close> entry, \<open>save\<close> of the total step
  stores \<open>numericTotal\<close> in the first such entry and leaves every other entry as it is,
  whatever the entries are; the total computed from the other location entries is the
  same before and after. \<open>numericTotal\<close> is computed from the text of the total field:
  zero for an empty text, the number the text denotes when the currency is USD, and
  that number divided by the exchange rate otherwise.

  The form of a balance does tie two fields. Its watcher on the asset type emits the
  form with the amount set to 1 whenever the type changes to \<open>nft\<close>, and emits nothing
  when the type does not change or changes to another value. The type changes to \<open>nft\<close>
  by itself when the form's asset identifier is an NFT and the type is not yet \<open>nft\<close>:
  then the form is emitted with amount 1. When the type is \<open>nft\<close> already, or the
  identifier is not an NFT, a change of the form emits nothing and leaves the type.
\<close>

theorem snapshot_field_relations:
  "((\<exists>item \<in> set val. location item = ''total'') \<longrightarrow>
      (\<exists>pre tot post.
         val = pre @ tot # post \<and> location tot = ''total'' \<and>
         (\<forall>x \<in> set pre. location x \<noteq> ''total'') \<and>
         save_total bn dv usd cur rate typed val =
           Inr (pre @ tot\<lparr>usdValue := numericTotal bn dv usd cur rate typed\<rparr> # post) \<and>
         locationTotal (pre @ tot\<lparr>usdValue := numericTotal bn dv usd cur rate typed\<rparr> # post) =
           locationTotal val)) \<and>
   numericTotal bn dv usd cur rate [] = 0 \<and>
   (typed \<noteq> [] \<longrightarrow> numericTotal bn dv usd usd rate typed = bn typed) \<and>
   (typed \<noteq> [] \<and> cur \<noteq> usd \<longrightarrow> numericTotal bn dv usd cur rate typed = dv (bn typed) rate) \<and>
   (oldType \<noteq> ''nft'' \<longrightarrow>
      watch_assetType formVal oldType ''nft'' = Some (formVal\<lparr>form_amount := ''1''\<rparr>)) \<and>
   (assetType = oldType \<or> assetType \<noteq> ''nft'' \<longrightarrow>
      watch_assetType formVal oldType assetType = None) \<and>
   (isNft (form_assetIdentifier formVal) \<and> assetType \<noteq> ''nft'' \<longrightarrow>
      watch_form isNft formVal assetType = (''nft'', Some (formVal\<lparr>form_amount := ''1''\<rparr>))) \<and>
   (assetType = ''nft'' \<or> \<not> isNft (form_assetIdentifier formVal) \<longrightarrow>
      watch_form isNft formVal assetType = (assetType, None))"
proof (intro conjI impI)
  assume ex: "\<exists>item \<in> set val. location item = ''total''"
  show "\<exists>pre tot post.
         val = pre @ tot # post \<and> location tot = ''total'' \<and>
         (\<forall>x \<in> set pre. location x \<noteq> ''total'') \<and>
         save_total bn dv usd cur rate typed val =
           Inr (pre @ tot\<lparr>usdValue := numericTotal bn dv usd cur rate typed\<rparr> # post) \<and>
         locationTotal (pre @ tot\<lparr>usdValue := numericTotal bn dv usd cur rate typed\<rparr> # post) =
           locationTotal val"
    by (rule save_total_split [OF ex])
next
  show "numericTotal bn dv usd cur rate [] = 0" by (simp add: numericTotal_def)
next
  assume "typed \<noteq> []"
  then show "numericTotal bn dv usd usd rate typed = bn typed" by (simp add: numericTotal_def)
next
  assume "typed \<noteq> [] \<and> cur \<noteq> usd"
  then show "numericTotal bn dv usd cur rate typed = dv (bn typed) rate"
    by (simp add: numericTotal_def)
next
  assume "oldType \<noteq> ''nft''"
  then show "watch_assetType formVal oldType ''nft'' = Some (formVal\<lparr>form_amount := ''1''\<rparr>)"
    by (auto simp: watch_assetType_def)
next
  assume "assetType = oldType \<or> assetType \<noteq> ''nft''"
  then show "watch_assetType formVal oldType assetType = None"
    by (auto simp: watch_assetType_def)
next
  assume "isNft (form_assetIdentifier formVal) \<and> assetType \<noteq> ''nft''"
  then show "watch_form isNft formVal assetType =
      (''nft'', Some (formVal\<lparr>form_amount := ''1''\<rparr>))"
    by (auto simp: watch_form_def checkAssetType_def watch_assetType_def Let_def)
next
  assume "assetType = ''nft'' \<or> \<not> isNft (form_assetIdentifier formVal)"
  then show "watch_form isNft formVal assetType = (assetType, None)"
    by (auto simp: watch_form_def checkAssetType_def watch_assetType_def Let_def)
qed

text \<open>
  At the example snapshot, whose other entries and whose balances both add up to 100,
  the text field holds 250 (in USD) or 500 (in euros, at a rate of 2): 250 is stored. An NFT balance with amount
  5 is emitted with amount 1 while the type is still \<open>token\<close>, and so is a balance in
  ETH when the user picks \<open>nft\<close>; with the type at \<open>nft\<close> already nothing is emitted.
\<close>

theorem snapshot_field_relations_witness:
  "save_total demo_bigNumberify demo_dividedBy ''USD'' ''USD'' 1 ''250'' demo_locations =
     Inr [\<lparr>timestamp = 1, location = ''kraken'', usdValue = 40\<rparr>,
          \<lparr>timestamp = 1, location = ''total'', usdValue = 250\<rparr>,
          \<lparr>timestamp = 1, location = ''blockchain'', usdValue = 60\<rparr>] \<and>
   save_total demo_bigNumberify demo_dividedBy ''USD'' ''EUR'' 2 ''500'' demo_locations =
     Inr [\<lparr>timestamp = 1, location = ''kraken'', usdValue = 40\<rparr>,
          \<lparr>timestamp = 1, location = ''total'', usdValue = 250\<rparr>,
          \<lparr>timestamp = 1, location = ''blockchain'', usdValue = 60\<rparr>] \<and>
   locationTotal [\<lparr>timestamp = 1, location = ''kraken'', usdValue = 40\<rparr>,
          \<lparr>timestamp = 1, location = ''total'', usdValue = 250\<rparr>,
          \<lparr>timestamp = 1, location = ''blockchain'', usdValue = 60\<rparr>] = 100 \<and>
   locationTotal demo_locations = 100 \<and>
   assetTotal demo_balances = 100 \<and>
   watch_assetType eth_balance ''token'' ''nft'' = Some (eth_balance\<lparr>form_amount := ''1''\<rparr>) \<and>
   watch_assetType eth_balance ''nft'' ''token'' = None \<and>
   watch_form nft_prefix nft_balance ''token'' =
     (''nft'', Some (nft_balance\<lparr>form_amount := ''1''\<rparr>)) \<and>
   watch_form nft_prefix nft_balance ''nft'' = (''nft'', None)"
proof -
  have ex: "\<exists>item \<in> set demo_locations. location item = ''total''"
    by (simp add: demo_locations_def)
  have nft: "nft_prefix (form_assetIdentifier nft_balance)"
    by (simp add: nft_prefix_def nft_balance_def)
  have lt: "locationTotal demo_locations = 100"
    by (simp add: locationTotal_def bigNumberSum_def demo_locations_def)
  have at: "assetTotal demo_balances = 100"
    by (simp add: assetTotal_def bigNumberSum_def demo_balances_def)
  have stored: "save_total demo_bigNumberify demo_dividedBy ''USD'' cur rate typed demo_locations =
     Inr [\<lparr>timestamp = 1, location = ''kraken'', usdValue = 40\<rparr>,
          \<lparr>timestamp = 1, location = ''total'',
           usdValue = numericTotal demo_bigNumberify demo_dividedBy ''USD'' cur rate typed\<rparr>,
          \<lparr>timestamp = 1, location = ''blockchain'', usdValue = 60\<rparr>] \<and>
     locationTotal [\<lparr>timestamp = 1, location = ''kraken'', usdValue = 40\<rparr>,
          \<lparr>timestamp = 1, location = ''total'',
           usdValue = numericTotal demo_bigNumberify demo_dividedBy ''USD'' cur rate typed\<rparr>,
          \<lparr>timestamp = 1, location = ''blockchain'', usdValue = 60\<rparr>] = 100"
    for cur rate typed
  proof -
    from snapshot_field_relations [where val = demo_locations 
        and bn = demo_bigNumberify and dv = demo_dividedBy and usd = "''USD''" and cur = cur
        and rate = rate and typed = typed, THEN conjunct1, rule_format, OF ex]
    obtain pre tot post where
      h: "demo_locations = pre @ tot # post" "location tot = ''total''"
         "\<forall>x \<in> set pre. location x \<noteq> ''total''"
         "save_total demo_bigNumberify demo_dividedBy ''USD'' cur rate typed demo_locations =
            Inr (pre @ tot\<lparr>usdValue := numericTotal demo_bigNumberify demo_dividedBy ''USD''
                                cur rate typed\<rparr> # post)"
         "locationTotal (pre @ tot\<lparr>usdValue := numericTotal demo_bigNumberify demo_dividedBy
                                ''USD'' cur rate typed\<rparr> # post) = locationTotal demo_locations"
      by blast
    have eq: "pre @ tot # post =
          [\<lparr>timestamp = 1, location = ''kraken'', usdValue = 40\<rparr>,
           \<lparr>timestamp = 1, location = ''total'', usdValue = 100\<rparr>,
           \<lparr>timestamp = 1, location = ''blockchain'', usdValue = 60\<rparr>]"
      by (rule h(1) [unfolded demo_locations_def, symmetric])
    have parts: "pre = [\<lparr>timestamp = 1, location = ''kraken'', usdValue = 40\<rparr>] \<and>
          tot = \<lparr>timestamp = 1, location = ''total'', usdValue = 100\<rparr> \<and>
          post = [\<lparr>timestamp = 1, location = ''blockchain'', usdValue = 60\<rparr>]"
    proof (cases pre)
      case Nil
      with eq h(2) show ?thesis by simp
    next
      case outer: (Cons x pre')
      with eq have x: "x = \<lparr>timestamp = 1, location = ''kraken'', usdValue = 40\<rparr>"
        and rest: "pre' @ tot # post =
          [\<lparr>timestamp = 1, location = ''total'', usdValue = 100\<rparr>,
           \<lparr>timestamp = 1, location = ''blockchain'', usdValue = 60\<rparr>]"
        by simp_all
      show ?thesis
      proof (cases pre')
        case Nil
        with rest outer x show ?thesis by simp
      next
        case (Cons y pre'')
        with rest have "location y = ''total''" by simp
        with Cons outer h(3) show ?thesis by simp
      qed
    qed
    from h(4) h(5) lt parts show ?thesis by simp
  qed
  have usd: "numericTotal demo_bigNumberify demo_dividedBy ''USD'' ''USD'' 1 ''250'' = 250"
    using snapshot_field_relations [where bn = demo_bigNumberify
        and dv = demo_dividedBy and usd = "''USD''" and rate = 1 and typed = "''250''",
        THEN conjunct2, THEN conjunct2, THEN conjunct1]
    by (simp add: demo_bigNumberify_def)
  have eur: "numericTotal demo_bigNumberify demo_dividedBy ''USD'' ''EUR'' 2 ''500'' = 250"
    using snapshot_field_relations [where bn = demo_bigNumberify
        and dv = demo_dividedBy and usd = "''USD''" and cur = "''EUR''" and rate = 2
        and typed = "''500''", THEN conjunct2, THEN conjunct2, THEN conjunct2, THEN conjunct1]
    by (simp add: demo_bigNumberify_def demo_dividedBy_def)
  have 1: "watch_assetType eth_balance ''token'' ''nft'' =
      Some (eth_balance\<lparr>form_amount := ''1''\<rparr>)"
    using snapshot_field_relations [where formVal = eth_balance and oldType = "''token''",
      THEN conjunct2, THEN conjunct2, THEN conjunct2, THEN conjunct2, THEN conjunct1]
    by simp
  have 2: "watch_assetType eth_balance ''nft'' ''token'' = None"
    using snapshot_field_relations [where formVal = eth_balance and oldType = "''nft''"
      and assetType = "''token''", THEN conjunct2, THEN conjunct2, THEN conjunct2, THEN conjunct2, THEN conjunct2, THEN conjunct1]
    by simp
  have 3: "watch_form nft_prefix nft_balance ''token'' =
      (''nft'', Some (nft_balance\<lparr>form_amount := ''1''\<rparr>))"
    using snapshot_field_relations [where isNft = nft_prefix and formVal = nft_balance
      and assetType = "''token''", THEN conjunct2, THEN conjunct2, THEN conjunct2, THEN conjunct2, THEN conjunct2, THEN conjunct2, THEN conjunct1] nft
    by simp
  have 4: "watch_form nft_prefix nft_balance ''nft'' = (''nft'', None)"
    using snapshot_field_relations [where isNft = nft_prefix and formVal = nft_balance
      and assetType = "''nft''", THEN conjunct2, THEN conjunct2, THEN conjunct2, THEN conjunct2, THEN conjunct2, THEN conjunct2, THEN conjunct2]
    by simp
  from stored [of "''USD''" 1 "''250''"] stored [of "''EUR''" 2 "''500''"] usd eur lt at 1 2 3 4
  show ?thesis by simp
qed

text \<open>
  The claim as first stated denies every tie between fields that the client
  establishes; the amount of an NFT balance is one.
\<close>

theorem nft_amount_counterexample:
  "form_amount nft_balance = ''5'' \<and>
   watch_form nft_prefix nft_balance ''token'' =
     (''nft'', Some (nft_balance\<lparr>form_amount := ''1''\<rparr>))"
  by (simp add: watch_form_def checkAssetType_def watch_assetType_def Let_def nft_prefix_def
      nft_balance_def)

end
